theory Spec2Isabelle
  imports Main "HOL-Library.Multiset"
begin

section \<open>Values shared by the resolvers\<close>

text \<open>
  The resolvers of \<^verbatim>\<open>packages/api/src/resolvers/subscriptions/index.ts\<close> are
  asynchronous functions that await collaborators (the feed parser, the task queue, the
  feed search).  An awaited call either resolves to a value or rejects with an
  \<^verbatim>\<open>Error\<close>, of which the resolvers only ever read the message.
\<close>

datatype 'a awaited = Resolved 'a | Rejected string

text \<open>Timestamps (\<^verbatim>\<open>Date\<close>) are milliseconds since the epoch.\<close>

type_synonym date = int

section \<open>feedsResolver (lines 345-395)\<close>

text \<open>
  \<^verbatim>\<open>String(n)\<close> on an integer: its decimal digits, with a minus sign when negative.
\<close>

definition digit_char :: "nat \<Rightarrow> char" where
  "digit_char d = char_of (48 + d)"

fun nat_digits :: "nat \<Rightarrow> string" where
  "nat_digits n = (if n < 10 then [digit_char n] else nat_digits (n div 10) @ [digit_char (n mod 10)])"

declare nat_digits.simps [simp del]

definition js_String :: "int \<Rightarrow> string" where
  "js_String n = (if n < 0 then CHR ''-'' # nat_digits (nat (- n)) else nat_digits (nat n))"

text \<open>
  \<^verbatim>\<open>Number(s)\<close> is a builtin of the language, so the resolver takes it as a parameter
  \<open>num\<close>: \<open>None\<close> is \<^verbatim>\<open>NaN\<close>, \<open>Some n\<close> an integer offset.  \<open>decimal_Number\<close> is
  the builtin on the strings of decimal digits, which are the cursors the resolver itself
  hands out for a non-negative offset; other spellings are left outside of it.
\<close>

definition digit_val :: "char \<Rightarrow> nat option" where
  "digit_val c =
     (let k = (of_char c :: nat) in if 48 \<le> k \<and> k \<le> 57 then Some (k - 48) else None)"

fun read_digits :: "nat \<Rightarrow> string \<Rightarrow> nat option" where
  "read_digits acc [] = Some acc"
| "read_digits acc (c # cs) =
     (case digit_val c of None \<Rightarrow> None | Some d \<Rightarrow> read_digits (10 * acc + d) cs)"

definition decimal_Number :: "string \<Rightarrow> int option" where
  "decimal_Number s = map_option int (read_digits 0 s)"

datatype FeedsErrorCode = Feeds_BadRequest | Feeds_Unauthorized

record FeedsInput =
  after :: "string option"
  first :: "int option"
  query :: "string option"
  sort_by :: "string option"
  sort_order :: "string option"

record 'f FeedEdge =
  node :: 'f
  cursor :: string

record PageInfo =
  hasPreviousPage :: bool
  hasNextPage :: bool
  startCursor :: string
  endCursor :: string
  totalCount :: int

record 'f FeedsSuccess =
  edges :: "'f FeedEdge list"
  pageInfo :: PageInfo

text \<open>
  The feed search collaborator \<^verbatim>\<open>feedRepository.searchFeeds(query, limit, offset, by, order)\<close>
  is a parameter; it resolves to the entries and the total count.
\<close>

type_synonym 'f searchFeeds =
  "string \<Rightarrow> int \<Rightarrow> int \<Rightarrow> string option \<Rightarrow> string option \<Rightarrow> ('f list \<times> int) awaited"

text \<open>Line 351: \<^verbatim>\<open>input.after || ''\<close>.\<close>

definition feeds_startCursor :: "FeedsInput \<Rightarrow> string" where
  "feeds_startCursor input = (case after input of None \<Rightarrow> '''' | Some s \<Rightarrow> s)"

text \<open>
  Lines 352-353: \<^verbatim>\<open>startCursor && !isNaN(Number(startCursor)) ? Number(startCursor) : 0\<close>.
\<close>

definition feeds_start :: "(string \<Rightarrow> int option) \<Rightarrow> FeedsInput \<Rightarrow> int" where
  "feeds_start num input =
     (let startCursor = feeds_startCursor input in
      if startCursor = '''' then 0
      else (case num startCursor of None \<Rightarrow> 0 | Some n \<Rightarrow> n))"

text \<open>
  Line 354: \<^verbatim>\<open>Math.min(input.first || 10, 100)\<close>.  \<^verbatim>\<open>||\<close> takes its right operand
  when the left one is \<^verbatim>\<open>null\<close>, \<^verbatim>\<open>undefined\<close> or \<^verbatim>\<open>0\<close>.
\<close>

definition feeds_first :: "FeedsInput \<Rightarrow> int" where
  "feeds_first input =
     min (case first input of None \<Rightarrow> 10 | Some f \<Rightarrow> if f = 0 then 10 else f) 100"

definition feedsResolver ::
  "(string \<Rightarrow> int option) \<Rightarrow> 'f searchFeeds \<Rightarrow> FeedsInput \<Rightarrow> FeedsErrorCode list + 'f FeedsSuccess" where
  "feedsResolver num searchFeeds input =
     (let startCursor = feeds_startCursor input;
          start = feeds_start num input;
          first = feeds_first input
      in case searchFeeds (case query input of None \<Rightarrow> '''' | Some q \<Rightarrow> q)
                (first + 1) start (sort_by input) (sort_order input) of
           Rejected msg \<Rightarrow> Inl [Feeds_BadRequest]
         | Resolved (feeds, count_all) \<Rightarrow>
             (let hasNextPage = (int (length feeds) > first);
                  endCursor = js_String (start + int (length feeds) - (if hasNextPage then 1 else 0));
                  feeds' = (if hasNextPage then butlast feeds else feeds);
                  edges = map (\<lambda>feed. \<lparr>node = feed, cursor = endCursor\<rparr>) feeds'
              in Inr \<lparr>edges = edges,
                      pageInfo = \<lparr>hasPreviousPage = (start > 0),
                                  hasNextPage = hasNextPage,
                                  startCursor = startCursor,
                                  endCursor = endCursor,
                                  totalCount = count_all\<rparr>\<rparr>))"

text \<open>
  Modelled from the spec: the feed search collaborator over a fixed catalog, which
  "accepts (queryString, limit, offset, sortBy?, sortOrder?), returns (entries,
  totalMatchCount)": the window of at most \<open>limit\<close> entries starting at \<open>offset\<close>.
\<close>

definition catalog_search :: "'f list \<Rightarrow> 'f searchFeeds" where
  "catalog_search catalog q limit offset by ord =
     Resolved (take (nat limit) (drop (nat offset) catalog), int (length catalog))"

text \<open>A page request that only sets \<^verbatim>\<open>after\<close> and \<^verbatim>\<open>first\<close>.\<close>

definition page_request :: "string \<Rightarrow> int \<Rightarrow> FeedsInput" where
  "page_request a n =
     \<lparr>after = Some a, first = Some n, query = None, sort_by = None, sort_order = None\<rparr>"

section \<open>The subscription table\<close>

text \<open>
  The entity \<^verbatim>\<open>Subscription\<close> and the enums of \<^verbatim>\<open>generated/graphql\<close> are declared
  outside the resolvers' file; they are taken from the data model of the specification
  (type \<^verbatim>\<open>RSS | NEWSLETTER\<close>, status \<^verbatim>\<open>ACTIVE | UNSUBSCRIBED\<close>).  A nullable column
  is an \<open>option\<close>, \<open>None\<close> being \<^verbatim>\<open>NULL\<close>.  The table is the list of its rows.
\<close>

datatype SubscriptionType = Newsletter | Rss

datatype SubscriptionStatus = Active | Unsubscribed

record Subscription =
  sub_id :: string
  user_id :: string
  sub_type :: SubscriptionType
  url :: "string option"
  name :: string
  description :: "string option"
  icon :: "string option"
  status :: SubscriptionStatus
  createdAt :: date
  lastFetchedAt :: "date option"
  lastFetchedChecksum :: "string option"
  scheduledAt :: "date option"
  autoAddToLibrary :: "bool option"
  isPrivate :: "bool option"

section \<open>subscriptionsResolver (lines 52-105)\<close>

datatype SortBy = UpdatedTime | OtherSortBy

datatype SortOrder = Ascending | Descending

record SortParams =
  sp_by :: SortBy
  sp_order :: "SortOrder option"

datatype SubscriptionsErrorCode = Subscriptions_BadRequest | Subscriptions_Unauthorized

datatype sort_column = Col_lastFetchedAt | Col_createdAt

datatype sort_direction = ASC | DESC

text \<open>Lines 58-59: \<^verbatim>\<open>sort?.by === SortBy.UpdatedTime ? 'lastFetchedAt' : 'createdAt'\<close>.\<close>

definition sortBy_of :: "SortParams option \<Rightarrow> sort_column" where
  "sortBy_of sort_arg =
     (case sort_arg of None \<Rightarrow> Col_createdAt
      | Some s \<Rightarrow> if sp_by s = UpdatedTime then Col_lastFetchedAt else Col_createdAt)"

text \<open>Line 60: \<^verbatim>\<open>sort?.order === SortOrder.Ascending ? 'ASC' : 'DESC'\<close>.\<close>

definition sortOrder_of :: "SortParams option \<Rightarrow> sort_direction" where
  "sortOrder_of sort_arg =
     (case sort_arg of None \<Rightarrow> DESC
      | Some s \<Rightarrow> if sp_order s = Some Ascending then ASC else DESC)"

text \<open>
  Lines 65-89: the \<^verbatim>\<open>WHERE\<close> clause, the owner first and then the branch on
  \<^verbatim>\<open>type\<close>.
\<close>

definition where_clause :: "string \<Rightarrow> SubscriptionType option \<Rightarrow> Subscription \<Rightarrow> bool" where
  "where_clause uid ty r =
     (user_id r = uid \<and>
      (if ty = Some Newsletter then sub_type r = Newsletter \<and> status r = Active
       else if ty = Some Rss then sub_type r = Rss
       else (sub_type r = Newsletter \<and> status r = Active) \<or> sub_type r = Rss))"

text \<open>
  Lines 92-93: \<^verbatim>\<open>ORDER BY status ASC, <column> <direction> NULLS LAST\<close>.  The status
  column orders \<^verbatim>\<open>ACTIVE\<close> before \<^verbatim>\<open>UNSUBSCRIBED\<close>.  \<open>order_le\<close> says that a row may
  stand before another one; \<open>orderBy\<close> sorts by insertion.
\<close>

definition status_rank :: "SubscriptionStatus \<Rightarrow> nat" where
  "status_rank s = (case s of Active \<Rightarrow> 0 | Unsubscribed \<Rightarrow> 1)"

definition column_value :: "sort_column \<Rightarrow> Subscription \<Rightarrow> date option" where
  "column_value c r = (case c of Col_lastFetchedAt \<Rightarrow> lastFetchedAt r | Col_createdAt \<Rightarrow> Some (createdAt r))"

fun nulls_last_le :: "sort_direction \<Rightarrow> date option \<Rightarrow> date option \<Rightarrow> bool" where
  "nulls_last_le d a None = True"
| "nulls_last_le d None (Some y) = False"
| "nulls_last_le ASC (Some x) (Some y) = (x \<le> y)"
| "nulls_last_le DESC (Some x) (Some y) = (y \<le> x)"

definition order_le :: "sort_column \<Rightarrow> sort_direction \<Rightarrow> Subscription \<Rightarrow> Subscription \<Rightarrow> bool" where
  "order_le c d a b =
     (status_rank (status a) < status_rank (status b) \<or>
      (status_rank (status a) = status_rank (status b) \<and>
       nulls_last_le d (column_value c a) (column_value c b)))"

fun insert_row :: "('a \<Rightarrow> 'a \<Rightarrow> bool) \<Rightarrow> 'a \<Rightarrow> 'a list \<Rightarrow> 'a list" where
  "insert_row le x [] = [x]"
| "insert_row le x (y # ys) = (if le x y then x # y # ys else y # insert_row le x ys)"

definition orderBy :: "('a \<Rightarrow> 'a \<Rightarrow> bool) \<Rightarrow> 'a list \<Rightarrow> 'a list" where
  "orderBy le rows = foldr (insert_row le) rows []"

definition subscriptionsResolver ::
  "Subscription list \<Rightarrow> string \<Rightarrow> SortParams option \<Rightarrow> SubscriptionType option
     \<Rightarrow> SubscriptionsErrorCode list + Subscription list" where
  "subscriptionsResolver store uid sort_arg ty =
     (let sortBy = sortBy_of sort_arg;
          sortOrder = sortOrder_of sort_arg;
          subscriptions = orderBy (order_le sortBy sortOrder) (filter (where_clause uid ty) store)
      in Inr subscriptions)"

section \<open>subscribeResolver (lines 174-287)\<close>

datatype SubscribeErrorCode =
  Subscribe_AlreadySubscribed | Subscribe_BadRequest | Subscribe_ExceededMaxSubscriptions
  | Subscribe_NotFound | Subscribe_Unauthorized

text \<open>What \<^verbatim>\<open>parseFeed(url)\<close> resolves to when it finds a feed.\<close>

record Feed =
  title :: string
  feed_url :: string
  feed_description :: "string option"
  thumbnail :: "string option"
  feed_type :: string

record SubscribeInput =
  in_url :: string
  in_autoAddToLibrary :: "bool option"
  in_isPrivate :: "bool option"

text \<open>The payload of \<^verbatim>\<open>enqueueRssFeedFetch\<close>: parallel arrays, one entry per subscription.\<close>

record RssFetchRequest =
  userIds :: "string list"
  req_url :: string
  subscriptionIds :: "string list"
  scheduledDates :: "date list"
  fetchedDates :: "date option list"
  checksums :: "string option list"
  addToLibraryFlags :: "bool list"

text \<open>
  The collaborators of the resolver: the feed parser, the task queue, the clock
  (\<^verbatim>\<open>new Date()\<close>) and, for the insert, the values the database gives to the columns the
  statement does not name (the generated id, the status, the creation time, ...).
\<close>

record Env =
  parseFeed :: "string \<Rightarrow> Feed option awaited"
  enqueueRssFeedFetch :: "RssFetchRequest \<Rightarrow> unit awaited"
  now :: date
  column_defaults :: Subscription

text \<open>
  \<^verbatim>\<open>s || null\<close> on an optional string: \<^verbatim>\<open>undefined\<close>, \<^verbatim>\<open>null\<close> and the empty
  string all give \<^verbatim>\<open>null\<close>.  \<^verbatim>\<open>!!b\<close> on an optional boolean.
\<close>

definition or_null :: "string option \<Rightarrow> string option" where
  "or_null s = (case s of None \<Rightarrow> None | Some x \<Rightarrow> if x = '''' then None else Some x)"

definition not_not :: "bool option \<Rightarrow> bool" where
  "not_not b = (case b of None \<Rightarrow> False | Some x \<Rightarrow> x)"

text \<open>
  Lines 190-194: \<^verbatim>\<open>findOneBy({url, user: {id: uid}, type})\<close>, the first row that
  matches.
\<close>

definition findOneBy :: "Subscription list \<Rightarrow> string \<Rightarrow> string \<Rightarrow> SubscriptionType \<Rightarrow> Subscription option" where
  "findOneBy store u uid ty =
     find (\<lambda>r. url r = Some u \<and> user_id r = uid \<and> sub_type r = ty) store"

text \<open>
  Lines 203-206: \<^verbatim>\<open>save(entity)\<close> of an entity that carries the id of a stored row
  writes the entity over that row and returns it.
\<close>

definition save :: "Subscription list \<Rightarrow> Subscription \<Rightarrow> Subscription list" where
  "save store r = map (\<lambda>x. if sub_id x = sub_id r then r else x) store"

text \<open>
  Lines 235-252, the statement
  \<^verbatim>\<open>insert into subscriptions (name, url, description, type, user_id, icon,
  auto_add_to_library, is_private) select $1, ..., $8 from subscriptions where user_id = $5
  and type = 'RSS' and status = 'ACTIVE' having count(*) < $9 returning *\<close>.
  The select has an aggregate and no grouping, so it yields one row of the eight parameters
  when the count of the user's active RSS rows is below \<open>$9\<close>, and no row otherwise.  The
  result is the list of inserted rows and the table after the statement.
\<close>

definition count_active_rss :: "Subscription list \<Rightarrow> string \<Rightarrow> nat" where
  "count_active_rss store uid =
     length (filter (\<lambda>r. user_id r = uid \<and> sub_type r = Rss \<and> status r = Active) store)"

definition insert_query ::
  "Subscription \<Rightarrow> Subscription list \<Rightarrow> string \<Rightarrow> string \<Rightarrow> string option \<Rightarrow> SubscriptionType
     \<Rightarrow> string \<Rightarrow> string option \<Rightarrow> bool option \<Rightarrow> bool option \<Rightarrow> nat
     \<Rightarrow> Subscription list \<times> Subscription list" where
  "insert_query defaults store p1 p2 p3 p4 p5 p6 p7 p8 p9 =
     (if count_active_rss store p5 < p9
      then (let row = defaults\<lparr>name := p1, url := Some p2, description := p3, sub_type := p4,
                                user_id := p5, icon := p6, autoAddToLibrary := p7, isPrivate := p8\<rparr>
            in ([row], store @ [row]))
      else ([], store))"

definition MAX_RSS_SUBSCRIPTIONS :: nat where
  "MAX_RSS_SUBSCRIPTIONS = 150"

text \<open>
  Lines 209-217 and 263-271: the fetch requests for a resubscribed and for a new
  subscription, both scheduled for now; the first carries the row's last fetch time and
  checksum, the second carries none.

  The resubscribed row is an entity returned by \<^verbatim>\<open>save\<close>, so line 216 reads its
  \<^verbatim>\<open>autoAddToLibrary\<close>.  The new row comes from \<^verbatim>\<open>query\<close>, which hands back the rows
  of \<^verbatim>\<open>returning *\<close> as the database sends them, keyed by column name
  (\<^verbatim>\<open>auto_add_to_library\<close>); the cast to \<^verbatim>\<open>Subscription[]\<close> changes nothing at run
  time.  Such a row has no property \<^verbatim>\<open>autoAddToLibrary\<close>, so the read of line 270 is
  \<^verbatim>\<open>undefined\<close> whatever the column holds, and the flag sent is \<^verbatim>\<open>false\<close>.
\<close>

definition raw_row_autoAddToLibrary :: "Subscription \<Rightarrow> bool option" where
  "raw_row_autoAddToLibrary newSubscription = None"

definition resubscribe_request ::
  "string \<Rightarrow> SubscribeInput \<Rightarrow> date \<Rightarrow> Subscription \<Rightarrow> RssFetchRequest" where
  "resubscribe_request uid input today updatedSubscription =
     \<lparr>userIds = [uid],
      req_url = in_url input,
      subscriptionIds = [sub_id updatedSubscription],
      scheduledDates = [today],
      fetchedDates = [lastFetchedAt updatedSubscription],
      checksums = [or_null (lastFetchedChecksum updatedSubscription)],
      addToLibraryFlags = [not_not (autoAddToLibrary updatedSubscription)]\<rparr>"

definition new_subscription_request ::
  "string \<Rightarrow> SubscribeInput \<Rightarrow> date \<Rightarrow> Subscription \<Rightarrow> RssFetchRequest" where
  "new_subscription_request uid input today newSubscription =
     \<lparr>userIds = [uid],
      req_url = in_url input,
      subscriptionIds = [sub_id newSubscription],
      scheduledDates = [today],
      fetchedDates = [None],
      checksums = [None],
      addToLibraryFlags = [not_not (raw_row_autoAddToLibrary newSubscription)]\<rparr>"

text \<open>Lines 276-286, the \<^verbatim>\<open>catch\<close> block.\<close>

definition subscribe_catch :: "string \<Rightarrow> SubscribeErrorCode list" where
  "subscribe_catch msg =
     (if msg = ''Status code 404'' then [Subscribe_NotFound] else [Subscribe_BadRequest])"

text \<open>
  The resolver returns its result and the table it leaves behind.  A rejection of an
  awaited collaborator goes to the \<^verbatim>\<open>catch\<close> block; the writes made before it stay.
\<close>

definition subscribeResolver ::
  "Env \<Rightarrow> Subscription list \<Rightarrow> string \<Rightarrow> SubscribeInput
     \<Rightarrow> (SubscribeErrorCode list + Subscription list) \<times> Subscription list" where
  "subscribeResolver env store uid input =
     (case findOneBy store (in_url input) uid Rss of
        Some existingSubscription \<Rightarrow>
          if status existingSubscription = Active
          then (Inl [Subscribe_AlreadySubscribed], store)
          else
            (let updatedSubscription = existingSubscription\<lparr>status := Active\<rparr>;
                 store' = save store updatedSubscription
             in case enqueueRssFeedFetch env
                       (resubscribe_request uid input (now env) updatedSubscription) of
                  Rejected msg \<Rightarrow> (Inl (subscribe_catch msg), store')
                | Resolved u \<Rightarrow> (Inr [updatedSubscription], store'))
      | None \<Rightarrow>
          (case parseFeed env (in_url input) of
             Rejected msg \<Rightarrow> (Inl (subscribe_catch msg), store)
           | Resolved None \<Rightarrow> (Inl [Subscribe_NotFound], store)
           | Resolved (Some feed) \<Rightarrow>
               (case insert_query (column_defaults env) store
                       (title feed) (feed_url feed) (or_null (feed_description feed)) Rss uid
                       (or_null (thumbnail feed)) (in_autoAddToLibrary input) (in_isPrivate input)
                       MAX_RSS_SUBSCRIPTIONS of
                  ([], store') \<Rightarrow> (Inl [Subscribe_ExceededMaxSubscriptions], store')
                | (newSubscription # rest, store') \<Rightarrow>
                    (case enqueueRssFeedFetch env
                            (new_subscription_request uid input (now env) newSubscription) of
                       Rejected msg \<Rightarrow> (Inl (subscribe_catch msg), store')
                     | Resolved u \<Rightarrow> (Inr [newSubscription], store')))))"

section \<open>updateSubscriptionResolver (lines 293-343)\<close>

datatype UpdateSubscriptionErrorCode = Update_BadRequest | Update_NotFound | Update_Unauthorized

text \<open>
  The input of the mutation.  An optional field is \<open>None\<close> when the caller leaves it out
  or sends \<^verbatim>\<open>null\<close>; \<open>Some ''''\<close> is the empty string sent on purpose.
\<close>

record UpdateSubscriptionInput =
  upd_id :: string
  upd_name :: "string option"
  upd_description :: "string option"
  upd_lastFetchedAt :: "date option"
  upd_lastFetchedChecksum :: "string option"
  upd_status :: "SubscriptionStatus option"
  upd_scheduledAt :: "date option"
  upd_autoAddToLibrary :: "bool option"
  upd_isPrivate :: "bool option"

text \<open>
  The object handed to \<^verbatim>\<open>save\<close> (lines 312-326).  A property is \<open>None\<close> when it is
  \<^verbatim>\<open>undefined\<close>, and \<^verbatim>\<open>save\<close> writes only the properties that are defined.
\<close>

record SubscriptionPartial =
  p_id :: string
  p_name :: "string option"
  p_description :: "string option"
  p_lastFetchedAt :: "date option"
  p_lastFetchedChecksum :: "string option"
  p_status :: "SubscriptionStatus option"
  p_scheduledAt :: "date option"
  p_autoAddToLibrary :: "bool option"
  p_isPrivate :: "bool option"

text \<open>
  \<^verbatim>\<open>s || undefined\<close> on an optional string, \<^verbatim>\<open>x ? new Date(x) : undefined\<close> on an
  optional date, \<^verbatim>\<open>x || undefined\<close> on an optional status (every status is a non-empty
  string, so only the absent one is falsy) and \<^verbatim>\<open>b ?? undefined\<close> on an optional boolean.
\<close>

definition or_undefined :: "string option \<Rightarrow> string option" where
  "or_undefined s = (case s of None \<Rightarrow> None | Some x \<Rightarrow> if x = '''' then None else Some x)"

definition date_or_undefined :: "date option \<Rightarrow> date option" where
  "date_or_undefined d = (case d of None \<Rightarrow> None | Some x \<Rightarrow> Some x)"

definition status_or_undefined :: "SubscriptionStatus option \<Rightarrow> SubscriptionStatus option" where
  "status_or_undefined s = (case s of None \<Rightarrow> None | Some x \<Rightarrow> Some x)"

definition nullish_undefined :: "bool option \<Rightarrow> bool option" where
  "nullish_undefined b = (case b of None \<Rightarrow> None | Some x \<Rightarrow> Some x)"

definition update_payload :: "UpdateSubscriptionInput \<Rightarrow> SubscriptionPartial" where
  "update_payload input =
     \<lparr>p_id = upd_id input,
      p_name = or_undefined (upd_name input),
      p_description = or_undefined (upd_description input),
      p_lastFetchedAt = date_or_undefined (upd_lastFetchedAt input),
      p_lastFetchedChecksum = or_undefined (upd_lastFetchedChecksum input),
      p_status = status_or_undefined (upd_status input),
      p_scheduledAt = date_or_undefined (upd_scheduledAt input),
      p_autoAddToLibrary = nullish_undefined (upd_autoAddToLibrary input),
      p_isPrivate = nullish_undefined (upd_isPrivate input)\<rparr>"

text \<open>The row after \<^verbatim>\<open>save\<close> has written the defined properties over it.\<close>

definition write_defined :: "SubscriptionPartial \<Rightarrow> Subscription \<Rightarrow> Subscription" where
  "write_defined p r =
     r\<lparr>name := (case p_name p of None \<Rightarrow> name r | Some v \<Rightarrow> v),
       description := (case p_description p of None \<Rightarrow> description r | Some v \<Rightarrow> Some v),
       lastFetchedAt := (case p_lastFetchedAt p of None \<Rightarrow> lastFetchedAt r | Some v \<Rightarrow> Some v),
       lastFetchedChecksum :=
         (case p_lastFetchedChecksum p of None \<Rightarrow> lastFetchedChecksum r | Some v \<Rightarrow> Some v),
       status := (case p_status p of None \<Rightarrow> status r | Some v \<Rightarrow> v),
       scheduledAt := (case p_scheduledAt p of None \<Rightarrow> scheduledAt r | Some v \<Rightarrow> Some v),
       autoAddToLibrary :=
         (case p_autoAddToLibrary p of None \<Rightarrow> autoAddToLibrary r | Some v \<Rightarrow> Some v),
       isPrivate := (case p_isPrivate p of None \<Rightarrow> isPrivate r | Some v \<Rightarrow> Some v)\<rparr>"

definition save_partial :: "Subscription list \<Rightarrow> SubscriptionPartial \<Rightarrow> Subscription list" where
  "save_partial store p = map (\<lambda>x. if sub_id x = p_id p then write_defined p x else x) store"

text \<open>Lines 328-331: \<^verbatim>\<open>findOneByOrFail({id, user: {id: uid}})\<close>; \<open>None\<close> is the throw.\<close>

definition findOneByOrFail :: "Subscription list \<Rightarrow> string \<Rightarrow> string \<Rightarrow> Subscription option" where
  "findOneByOrFail store i uid = find (\<lambda>r. sub_id r = i \<and> user_id r = uid) store"

text \<open>
  Modelled from the spec: \<^verbatim>\<open>authTrx\<close>, which is declared outside the resolvers' file,
  runs the write and the re-read as one transaction ("only one logical transaction
  performs both the write and the subsequent authoritative re-read"): when the callback
  throws, the table is as it was.  When no row has the id, \<^verbatim>\<open>save\<close> has nothing to
  write over, and the re-read scoped to the owner throws.
\<close>

definition updateSubscriptionResolver ::
  "Subscription list \<Rightarrow> string \<Rightarrow> UpdateSubscriptionInput
     \<Rightarrow> (UpdateSubscriptionErrorCode list + Subscription) \<times> Subscription list" where
  "updateSubscriptionResolver store uid input =
     (case find (\<lambda>r. sub_id r = upd_id input) store of
        None \<Rightarrow> (Inl [Update_BadRequest], store)
      | Some r \<Rightarrow>
          (let store' = save_partial store (update_payload input)
           in case findOneByOrFail store' (upd_id input) uid of
                None \<Rightarrow> (Inl [Update_BadRequest], store)
              | Some updatedSubscription \<Rightarrow> (Inr updatedSubscription, store')))"

section \<open>scanFeedsResolver (lines 397-482)\<close>

datatype ScanFeedsErrorCode = Scan_BadRequest | Scan_NotFound | Scan_Unauthorized

record ScanFeedsInput =
  opml :: "string option"
  scan_url :: "string option"

text \<open>An outline of \<^verbatim>\<open>parseOpml\<close>, and the response of \<^verbatim>\<open>axios.get\<close>.\<close>

record OpmlFeed =
  opml_url :: string
  opml_title :: string
  opml_type :: "string option"

record Response =
  data :: string
  content_type :: "string option"

text \<open>
  The collaborators: the OPML parser, the HTTP client, the HTML parser followed by the
  selector \<^verbatim>\<open>link[type="application/rss+xml"]\<close> (the \<^verbatim>\<open>href\<close> and \<^verbatim>\<open>title\<close>
  attributes of each element found, \<open>None\<close> for a missing attribute) and the feed parser.
\<close>

record ScanEnv =
  parseOpml :: "string \<Rightarrow> OpmlFeed list option"
  axios_get :: "string \<Rightarrow> Response awaited"
  rss_links :: "string \<Rightarrow> (string option \<times> string option) list"
  scan_parseFeed :: "string \<Rightarrow> Feed option awaited"

text \<open>\<^verbatim>\<open>s.includes(t)\<close>: \<open>t\<close> occurs in \<open>s\<close>.\<close>

fun starts_with :: "string \<Rightarrow> string \<Rightarrow> bool" where
  "starts_with s [] = True"
| "starts_with [] (c # t) = False"
| "starts_with (d # s) (c # t) = (d = c \<and> starts_with s t)"

fun js_includes :: "string \<Rightarrow> string \<Rightarrow> bool" where
  "js_includes [] t = (t = [])"
| "js_includes (d # s) t = (starts_with (d # s) t \<or> js_includes s t)"

text \<open>\<^verbatim>\<open>s || d\<close> on an optional string.\<close>

definition or_default :: "string option \<Rightarrow> string \<Rightarrow> string" where
  "or_default s d = (case s of None \<Rightarrow> d | Some x \<Rightarrow> if x = '''' then d else x)"

definition candidate :: "string \<Rightarrow> string \<Rightarrow> string \<Rightarrow> Feed" where
  "candidate u t ty =
     \<lparr>title = t, feed_url = u, feed_description = None, thumbnail = None, feed_type = ty\<rparr>"

definition scanFeedsResolver :: "ScanEnv \<Rightarrow> ScanFeedsInput \<Rightarrow> ScanFeedsErrorCode list + Feed list" where
  "scanFeedsResolver env input =
     (if or_default (opml input) '''' \<noteq> ''''
      then (case parseOpml env (or_default (opml input) '''') of
              None \<Rightarrow> Inl [Scan_BadRequest]
            | Some feeds \<Rightarrow>
                Inr (map (\<lambda>feed. candidate (opml_url feed) (opml_title feed)
                                    (or_default (opml_type feed) ''rss'')) feeds))
      else if or_default (scan_url input) '''' = '''' then Inl [Scan_BadRequest]
      else
        (let url = or_default (scan_url input) '''' in
         case axios_get env url of
           Rejected msg \<Rightarrow> Inl [Scan_BadRequest]
         | Resolved response \<Rightarrow>
             (let content = data response;
                  contentType = content_type response;
                  isHtml = (case contentType of None \<Rightarrow> False | Some ct \<Rightarrow> js_includes ct ''text/html'')
              in if isHtml
                 then Inr (filter (\<lambda>feed. feed_url feed \<noteq> '''')
                            (map (\<lambda>(href, ttl). candidate (or_default href '''') (or_default ttl '''') ''rss'')
                               (rss_links env content)))
                 else (case scan_parseFeed env url of
                         Rejected msg \<Rightarrow> Inl [Scan_BadRequest]
                       | Resolved None \<Rightarrow> Inl [Scan_BadRequest]
                       | Resolved (Some feed) \<Rightarrow> Inr [feed]))))"

section \<open>A small table for examples\<close>

definition example_row ::
  "string \<Rightarrow> string \<Rightarrow> SubscriptionType \<Rightarrow> string \<Rightarrow> SubscriptionStatus \<Rightarrow> date \<Rightarrow> date option
     \<Rightarrow> Subscription" where
  "example_row i u ty link st created fetched =
     \<lparr>sub_id = i, user_id = u, sub_type = ty, url = Some link, name = i, description = None,
      icon = None, status = st, createdAt = created, lastFetchedAt = fetched,
      lastFetchedChecksum = Some ''c0'', scheduledAt = None, autoAddToLibrary = None,
      isPrivate = None\<rparr>"

definition example_store :: "Subscription list" where
  "example_store =
     [example_row ''s1'' ''u1'' Rss ''a'' Unsubscribed 10 (Some 500),
      example_row ''s2'' ''u1'' Rss ''b'' Active 20 None,
      example_row ''s3'' ''u1'' Newsletter ''c'' Active 30 (Some 100),
      example_row ''s4'' ''u1'' Newsletter ''d'' Unsubscribed 40 (Some 300),
      example_row ''s5'' ''u2'' Rss ''a'' Active 50 (Some 200),
      example_row ''s6'' ''u1'' Rss ''e'' Active 60 (Some 400)]"

text \<open>
  Collaborators for the examples: a parser that finds, at every address, the feed whose
  own address is \<open>canonical\<close>; a queue that accepts every request; and the row of column
  defaults of a database that makes new rows \<open>ACTIVE\<close>.
\<close>

definition example_feed :: "string \<Rightarrow> Feed" where
  "example_feed canonical =
     \<lparr>title = ''T'', feed_url = canonical, feed_description = Some '''', thumbnail = Some ''i'',
      feed_type = ''rss''\<rparr>"

definition example_env :: "Feed option awaited \<Rightarrow> unit awaited \<Rightarrow> Env" where
  "example_env parsed queued =
     \<lparr>parseFeed = (\<lambda>u. parsed),
      enqueueRssFeedFetch = (\<lambda>r. queued),
      now = 1000,
      column_defaults = example_row ''s7'' '''' Rss '''' Active 1000 None\<rparr>"

text \<open>
  The same collaborators with a queue that accepts a request only when its
  add-to-library flag is \<open>false\<close>.
\<close>

definition strict_env :: "Feed option awaited \<Rightarrow> Env" where
  "strict_env parsed =
     \<lparr>parseFeed = (\<lambda>u. parsed),
      enqueueRssFeedFetch =
        (\<lambda>r. if addToLibraryFlags r = [False] then Resolved () else Rejected ''flag''),
      now = 1000,
      column_defaults = example_row ''s7'' '''' Rss '''' Active 1000 None\<rparr>"

definition example_input :: "string \<Rightarrow> SubscribeInput" where
  "example_input u = \<lparr>in_url = u, in_autoAddToLibrary = Some True, in_isPrivate = None\<rparr>"

text \<open>A table in which the user \<open>u1\<close> has 150 active RSS rows.\<close>

definition full_store :: "Subscription list" where
  "full_store = replicate 150 (example_row ''r'' ''u1'' Rss ''a'' Active 0 None)"

text \<open>
  Collaborators of a scan for the examples: no OPML outline, a response whose content type
  is \<open>application/xml\<close>, no link elements, and a feed parser with a given outcome.
\<close>

definition example_scan_env :: "Feed option awaited \<Rightarrow> ScanEnv" where
  "example_scan_env parsed =
     \<lparr>parseOpml = (\<lambda>s. None),
      axios_get = (\<lambda>u. Resolved \<lparr>data = ''x'', content_type = Some ''application/xml''\<rparr>),
      rss_links = (\<lambda>s. []),
      scan_parseFeed = (\<lambda>u. parsed)\<rparr>"

definition example_scan_input :: ScanFeedsInput where
  "example_scan_input = \<lparr>opml = None, scan_url = Some ''y''\<rparr>"

text \<open>An update that names the subscription \<open>s6\<close> and sets nothing.\<close>

definition example_update :: UpdateSubscriptionInput where
  "example_update =
     \<lparr>upd_id = ''s6'', upd_name = None, upd_description = None, upd_lastFetchedAt = None,
      upd_lastFetchedChecksum = None, upd_status = None, upd_scheduledAt = None,
      upd_autoAddToLibrary = None, upd_isPrivate = None\<rparr>"

section \<open>Properties of subscriptionsResolver\<close>

lemma mset_insert_row: "mset (insert_row le x xs) = add_mset x (mset xs)"
  by (induction xs) auto

lemma mset_orderBy: "mset (orderBy le rows) = mset rows"
  unfolding orderBy_def by (induction rows) (auto simp add: mset_insert_row)

lemma set_insert_row: "set (insert_row le x xs) = insert x (set xs)"
  by (induction xs) auto

lemma sorted_wrt_insert_row:
  assumes total: "\<And>a b. le a b \<or> le b a"
    and trans: "\<And>a b c. le a b \<Longrightarrow> le b c \<Longrightarrow> le a c"
    and sorted: "sorted_wrt le xs"
  shows "sorted_wrt le (insert_row le x xs)"
  using sorted
proof (induction xs)
  case Nil
  show ?case by simp
next
  case (Cons y ys)
  show ?case
  proof (cases "le x y")
    case True
    with Cons.prems trans show ?thesis by auto
  next
    case False
    with total have "le y x" by blast
    with False Cons show ?thesis by (auto simp add: set_insert_row)
  qed
qed

lemma sorted_wrt_orderBy:
  assumes "\<And>a b. le a b \<or> le b a" and "\<And>a b c. le a b \<Longrightarrow> le b c \<Longrightarrow> le a c"
  shows "sorted_wrt le (orderBy le rows)"
  unfolding orderBy_def
  by (induction rows) (simp_all add: sorted_wrt_insert_row [of le] assms)

lemma nulls_last_le_total: "nulls_last_le d a b \<or> nulls_last_le d b a"
  by (cases d; cases a; cases b) auto

lemma nulls_last_le_trans:
  "nulls_last_le d a b \<Longrightarrow> nulls_last_le d b c \<Longrightarrow> nulls_last_le d a c"
  by (cases d; cases a; cases b; cases c) auto

lemma order_le_total: "order_le c d a b \<or> order_le c d b a"
  using nulls_last_le_total [of d "column_value c a" "column_value c b"]
  by (auto simp add: order_le_def)

lemma order_le_trans: "order_le c d a b \<Longrightarrow> order_le c d b e \<Longrightarrow> order_le c d a e"
  unfolding order_le_def
  using nulls_last_le_trans [of d "column_value c a" "column_value c b" "column_value c e"]
  by auto

lemma sorted_wrt_order_le: "sorted_wrt (order_le c d) (orderBy (order_le c d) rows)"
  by (rule sorted_wrt_orderBy) (use order_le_total order_le_trans in blast)+

lemma status_rank_less: "status_rank s < status_rank t \<longleftrightarrow> s = Active \<and> t = Unsubscribed"
  by (cases s; cases t) (simp_all add: status_rank_def)

lemma status_rank_eq: "status_rank s = status_rank t \<longleftrightarrow> s = t"
  by (cases s; cases t) (simp_all add: status_rank_def)

lemma order_le_unfold:
  "order_le c d a b \<longleftrightarrow>
     (status a = Active \<and> status b = Unsubscribed) \<or>
     (status a = status b \<and> nulls_last_le d (column_value c a) (column_value c b))"
  by (simp add: order_le_def status_rank_less status_rank_eq)

text \<open>
  Claim C5.  For every table, user and sort: the listing with the type filter
  \<open>NEWSLETTER\<close> holds exactly the user's newsletters whose status is \<open>ACTIVE\<close>; the
  listing with the filter \<open>RSS\<close> holds exactly the user's RSS rows, whatever their status;
  the listing with no filter holds exactly the rows of the two together.
\<close>

theorem C5_filter_semantics:
  "\<exists>ns rs us.
      subscriptionsResolver store uid sort_arg (Some Newsletter) = Inr ns
    \<and> subscriptionsResolver store uid sort_arg (Some Rss) = Inr rs
    \<and> subscriptionsResolver store uid sort_arg None = Inr us
    \<and> mset ns = filter_mset (\<lambda>r. user_id r = uid \<and> sub_type r = Newsletter \<and> status r = Active) (mset store)
    \<and> mset rs = filter_mset (\<lambda>r. user_id r = uid \<and> sub_type r = Rss) (mset store)
    \<and> mset us = mset ns + mset rs"
proof -
  have "filter_mset (where_clause uid None) (mset store) =
        filter_mset (where_clause uid (Some Newsletter)) (mset store)
        + filter_mset (where_clause uid (Some Rss)) (mset store)"
    by (induction store) (auto simp add: where_clause_def)
  moreover have "where_clause uid (Some Newsletter) =
        (\<lambda>r. user_id r = uid \<and> sub_type r = Newsletter \<and> status r = Active)"
    by (auto simp add: where_clause_def fun_eq_iff)
  moreover have "where_clause uid (Some Rss) = (\<lambda>r. user_id r = uid \<and> sub_type r = Rss)"
    by (auto simp add: where_clause_def fun_eq_iff)
  ultimately show ?thesis
    by (simp add: subscriptionsResolver_def mset_orderBy)
qed

theorem C5_filter_semantics_witness:
  "\<exists>ns rs us.
      subscriptionsResolver example_store ''u1'' None (Some Newsletter) = Inr ns
    \<and> subscriptionsResolver example_store ''u1'' None (Some Rss) = Inr rs
    \<and> subscriptionsResolver example_store ''u1'' None None = Inr us
    \<and> map sub_id ns = [''s3'']
    \<and> map sub_id rs = [''s6'', ''s2'', ''s1'']
    \<and> map sub_id us = [''s6'', ''s3'', ''s2'', ''s1'']"
  using C5_filter_semantics [of example_store "''u1''" None]
  by (simp add: subscriptionsResolver_def example_store_def example_row_def where_clause_def
      orderBy_def order_le_def sortBy_of_def sortOrder_of_def status_rank_def column_value_def)

lemma order_le_pair:
  assumes "order_le c d a b"
  shows "(status a = Unsubscribed \<longrightarrow> status b = Unsubscribed)
       \<and> (status a = status b \<longrightarrow>
            (column_value c a = None \<longrightarrow> column_value c b = None)
          \<and> (\<forall>x y. column_value c a = Some x \<and> column_value c b = Some y \<longrightarrow>
                   (if d = ASC then x \<le> y else y \<le> x)))"
proof -
  from assms have "(status a = Active \<and> status b = Unsubscribed) \<or>
     (status a = status b \<and> nulls_last_le d (column_value c a) (column_value c b))"
    by (simp add: order_le_unfold)
  then show ?thesis
    by (cases d; cases "column_value c a"; cases "column_value c b") auto
qed

lemma orderBy_pairs:
  assumes "i < j" and "j < length (orderBy (order_le c d) rows)"
  shows "order_le c d (orderBy (order_le c d) rows ! i) (orderBy (order_le c d) rows ! j)"
  using sorted_wrt_order_le [of c d rows] assms
  by (simp add: sorted_wrt_iff_nth_less)

lemma sortBy_of_cases:
  "(sortBy_of sort_arg = Col_lastFetchedAt \<longleftrightarrow> (\<exists>p. sort_arg = Some p \<and> sp_by p = UpdatedTime))
   \<and> (sortBy_of sort_arg = Col_createdAt \<longleftrightarrow> \<not> (\<exists>p. sort_arg = Some p \<and> sp_by p = UpdatedTime))"
  by (cases sort_arg) (auto simp add: sortBy_of_def)

lemma sortOrder_of_cases:
  "(sortOrder_of sort_arg = ASC \<longleftrightarrow> (\<exists>p. sort_arg = Some p \<and> sp_order p = Some Ascending))
   \<and> (sortOrder_of sort_arg = DESC \<longleftrightarrow> \<not> (\<exists>p. sort_arg = Some p \<and> sp_order p = Some Ascending))"
  by (cases sort_arg) (auto simp add: sortOrder_of_def)

lemma column_value_cases:
  "column_value Col_lastFetchedAt = lastFetchedAt
   \<and> column_value Col_createdAt = (\<lambda>r. Some (createdAt r))"
  by (simp add: column_value_def fun_eq_iff)

lemma subscriptionsResolver_ordered:
  "\<exists>rs. subscriptionsResolver store uid sort_arg ty = Inr rs
         \<and> mset rs = mset (filter (where_clause uid ty) store)
         \<and> (\<forall>i j. i < j \<and> j < length rs \<longrightarrow>
               (status (rs ! i) = Unsubscribed \<longrightarrow> status (rs ! j) = Unsubscribed)
             \<and> (status (rs ! i) = status (rs ! j) \<longrightarrow>
                  (column_value (sortBy_of sort_arg) (rs ! i) = None \<longrightarrow>
                     column_value (sortBy_of sort_arg) (rs ! j) = None)
                \<and> (\<forall>x y. column_value (sortBy_of sort_arg) (rs ! i) = Some x
                         \<and> column_value (sortBy_of sort_arg) (rs ! j) = Some y \<longrightarrow>
                         (if sortOrder_of sort_arg = ASC then x \<le> y else y \<le> x))))"
proof (intro exI conjI allI impI)
  show "subscriptionsResolver store uid sort_arg ty =
      Inr (orderBy (order_le (sortBy_of sort_arg) (sortOrder_of sort_arg))
             (filter (where_clause uid ty) store))"
    by (simp add: subscriptionsResolver_def)
next
  show "mset (orderBy (order_le (sortBy_of sort_arg) (sortOrder_of sort_arg))
             (filter (where_clause uid ty) store)) = mset (filter (where_clause uid ty) store)"
    by (rule mset_orderBy)
qed (use orderBy_pairs order_le_pair in blast)+

text \<open>
  Claim C6, as amended.  For every listing, the sort column is \<open>lastFetchedAt\<close> exactly when the sort
  is by \<open>UpdatedTime\<close> and \<open>createdAt\<close> otherwise, and the direction is ascending exactly
  when \<open>Ascending\<close> is requested and descending otherwise.  The result is a rearrangement of
  the selected rows in which, for any two positions \<open>i < j\<close>: an \<open>UNSUBSCRIBED\<close> row at
  \<open>i\<close> is followed only by \<open>UNSUBSCRIBED\<close> rows (so every \<open>ACTIVE\<close> row precedes every
  \<open>UNSUBSCRIBED\<close> one); and when the two rows have the same status, a \<open>NULL\<close> sort key at
  \<open>i\<close> forces a \<open>NULL\<close> key at \<open>j\<close> (within one status, \<open>NULL\<close> keys come last in both
  directions), and two keys that are not \<open>NULL\<close> are in the requested direction.
\<close>

theorem C6_ordering:
  "(sortBy_of sort_arg = Col_lastFetchedAt \<longleftrightarrow> (\<exists>p. sort_arg = Some p \<and> sp_by p = UpdatedTime))
   \<and> (sortBy_of sort_arg = Col_createdAt \<longleftrightarrow> \<not> (\<exists>p. sort_arg = Some p \<and> sp_by p = UpdatedTime))
   \<and> (sortOrder_of sort_arg = ASC \<longleftrightarrow> (\<exists>p. sort_arg = Some p \<and> sp_order p = Some Ascending))
   \<and> (sortOrder_of sort_arg = DESC \<longleftrightarrow> \<not> (\<exists>p. sort_arg = Some p \<and> sp_order p = Some Ascending))
   \<and> column_value Col_lastFetchedAt = lastFetchedAt
   \<and> column_value Col_createdAt = (\<lambda>r. Some (createdAt r))
   \<and> (\<exists>rs. subscriptionsResolver store uid sort_arg ty = Inr rs
         \<and> mset rs = mset (filter (where_clause uid ty) store)
         \<and> (\<forall>i j. i < j \<and> j < length rs \<longrightarrow>
               (status (rs ! i) = Unsubscribed \<longrightarrow> status (rs ! j) = Unsubscribed)
             \<and> (status (rs ! i) = status (rs ! j) \<longrightarrow>
                  (column_value (sortBy_of sort_arg) (rs ! i) = None \<longrightarrow>
                     column_value (sortBy_of sort_arg) (rs ! j) = None)
                \<and> (\<forall>x y. column_value (sortBy_of sort_arg) (rs ! i) = Some x
                         \<and> column_value (sortBy_of sort_arg) (rs ! j) = Some y \<longrightarrow>
                         (if sortOrder_of sort_arg = ASC then x \<le> y else y \<le> x)))))"
  using sortBy_of_cases [of sort_arg] sortOrder_of_cases [of sort_arg] column_value_cases
    subscriptionsResolver_ordered [of store uid sort_arg ty]
  by (elim conjE) (intro conjI; assumption)

theorem C6_ordering_witness:
  "\<exists>rs. subscriptionsResolver example_store ''u1''
            (Some \<lparr>sp_by = UpdatedTime, sp_order = Some Ascending\<rparr>) None = Inr rs
     \<and> map sub_id rs = [''s3'', ''s6'', ''s2'', ''s1'']
     \<and> map status rs = [Active, Active, Active, Unsubscribed]
     \<and> map lastFetchedAt rs = [Some 100, Some 400, None, Some 500]"
proof -
  from C6_ordering [of "Some \<lparr>sp_by = UpdatedTime, sp_order = Some Ascending\<rparr>"
      example_store "''u1''" None]
  obtain rs where "subscriptionsResolver example_store ''u1''
            (Some \<lparr>sp_by = UpdatedTime, sp_order = Some Ascending\<rparr>) None = Inr rs"
    by (elim conjE exE)
  then show ?thesis
    by (auto simp add: subscriptionsResolver_def example_store_def example_row_def where_clause_def
      orderBy_def order_le_def sortBy_of_def sortOrder_of_def status_rank_def column_value_def)
qed

text \<open>
  The claim as stated fails: it places the rows with a \<open>NULL\<close> sort key after all rows
  with a key, but the status comes first.  In the listing of the example table by
  \<open>UpdatedTime\<close>, in either direction, the \<open>ACTIVE\<close> row without a last fetch time stands
  before the \<open>UNSUBSCRIBED\<close> row that has one.
\<close>

theorem C6_nulls_last_counterexample:
  "\<not> (\<forall>rs i j. subscriptionsResolver example_store ''u1''
                    (Some \<lparr>sp_by = UpdatedTime, sp_order = Some Ascending\<rparr>) None = Inr rs
                 \<and> i < j \<and> j < length rs \<and> lastFetchedAt (rs ! i) = None
                 \<longrightarrow> lastFetchedAt (rs ! j) = None)
   \<and> \<not> (\<forall>rs i j. subscriptionsResolver example_store ''u1''
                    (Some \<lparr>sp_by = UpdatedTime, sp_order = Some Descending\<rparr>) None = Inr rs
                 \<and> i < j \<and> j < length rs \<and> lastFetchedAt (rs ! i) = None
                 \<longrightarrow> lastFetchedAt (rs ! j) = None)"
proof (intro conjI notI)
  assume a: "\<forall>rs i j. subscriptionsResolver example_store ''u1''
                    (Some \<lparr>sp_by = UpdatedTime, sp_order = Some Ascending\<rparr>) None = Inr rs
                 \<and> i < j \<and> j < length rs \<and> lastFetchedAt (rs ! i) = None
                 \<longrightarrow> lastFetchedAt (rs ! j) = None"
  have "\<exists>rs. subscriptionsResolver example_store ''u1''
                    (Some \<lparr>sp_by = UpdatedTime, sp_order = Some Ascending\<rparr>) None = Inr rs
          \<and> length rs = 4 \<and> map sub_id rs = [''s3'', ''s6'', ''s2'', ''s1'']
          \<and> lastFetchedAt (rs ! 2) = None \<and> lastFetchedAt (rs ! 3) = Some 500"
    by (simp add: subscriptionsResolver_def example_store_def example_row_def where_clause_def
      orderBy_def order_le_def sortBy_of_def sortOrder_of_def status_rank_def column_value_def)
  then obtain rs where "subscriptionsResolver example_store ''u1''
                    (Some \<lparr>sp_by = UpdatedTime, sp_order = Some Ascending\<rparr>) None = Inr rs"
      and "length rs = 4" and "lastFetchedAt (rs ! 2) = None"
      and "lastFetchedAt (rs ! 3) = Some 500"
    by blast
  with a [rule_format, of rs 2 3] show False
    by simp
next
  assume a: "\<forall>rs i j. subscriptionsResolver example_store ''u1''
                    (Some \<lparr>sp_by = UpdatedTime, sp_order = Some Descending\<rparr>) None = Inr rs
                 \<and> i < j \<and> j < length rs \<and> lastFetchedAt (rs ! i) = None
                 \<longrightarrow> lastFetchedAt (rs ! j) = None"
  have "\<exists>rs. subscriptionsResolver example_store ''u1''
                    (Some \<lparr>sp_by = UpdatedTime, sp_order = Some Descending\<rparr>) None = Inr rs
          \<and> length rs = 4 \<and> map sub_id rs = [''s6'', ''s3'', ''s2'', ''s1'']
          \<and> lastFetchedAt (rs ! 2) = None \<and> lastFetchedAt (rs ! 3) = Some 500"
    by (simp add: subscriptionsResolver_def example_store_def example_row_def where_clause_def
      orderBy_def order_le_def sortBy_of_def sortOrder_of_def status_rank_def column_value_def)
  then obtain rs where "subscriptionsResolver example_store ''u1''
                    (Some \<lparr>sp_by = UpdatedTime, sp_order = Some Descending\<rparr>) None = Inr rs"
      and "length rs = 4" and "lastFetchedAt (rs ! 2) = None"
      and "lastFetchedAt (rs ! 3) = Some 500"
    by blast
  with a [rule_format, of rs 2 3] show False
    by simp
qed

section \<open>Properties of feedsResolver\<close>

lemma feedsResolver_Resolved:
  assumes "searchFeeds (case query input of None \<Rightarrow> '''' | Some q \<Rightarrow> q)
             (feeds_first input + 1) (feeds_start num input) (sort_by input) (sort_order input)
           = Resolved (feeds, cnt)"
  shows "feedsResolver num searchFeeds input =
           Inr \<lparr>edges = map (\<lambda>feed. \<lparr>node = feed,
                    cursor = js_String (feeds_start num input + int (length feeds)
                               - (if int (length feeds) > feeds_first input then 1 else 0))\<rparr>)
                    (if int (length feeds) > feeds_first input then butlast feeds else feeds),
                pageInfo = \<lparr>hasPreviousPage = (feeds_start num input > 0),
                            hasNextPage = (int (length feeds) > feeds_first input),
                            startCursor = feeds_startCursor input,
                            endCursor = js_String (feeds_start num input + int (length feeds)
                               - (if int (length feeds) > feeds_first input then 1 else 0)),
                            totalCount = cnt\<rparr>\<rparr>"
  using assms by (simp add: feedsResolver_def Let_def)

lemma js_String_10: "js_String 10 = ''10''"
  by code_simp

lemma js_String_20: "js_String 20 = ''20''"
  by code_simp

lemma js_String_25: "js_String 25 = ''25''"
  by code_simp

lemma decimal_Number_10: "decimal_Number ''10'' = Some 10"
  by (simp add: decimal_Number_def digit_val_def)

lemma decimal_Number_20: "decimal_Number ''20'' = Some 20"
  by (simp add: decimal_Number_def digit_val_def)

lemma feeds_first_page_request: "feeds_first (page_request a 10) = 10"
  by (simp add: feeds_first_def page_request_def)

lemma feeds_start_page_request:
  "feeds_start num (page_request a 10) = (if a = '''' then 0 else case num a of None \<Rightarrow> 0 | Some n \<Rightarrow> n)"
  by (simp add: feeds_start_def feeds_startCursor_def page_request_def)

lemma catalog_page:
  assumes "feeds_start decimal_Number (page_request a 10) = int k"
  shows "feedsResolver decimal_Number (catalog_search catalog) (page_request a 10) =
           Inr \<lparr>edges = map (\<lambda>feed. \<lparr>node = feed,
                    cursor = js_String (int k + int (length (take 11 (drop k catalog)))
                               - (if int (length (take 11 (drop k catalog))) > 10 then 1 else 0))\<rparr>)
                    (if int (length (take 11 (drop k catalog))) > 10
                     then butlast (take 11 (drop k catalog)) else take 11 (drop k catalog)),
                pageInfo = \<lparr>hasPreviousPage = (int k > 0),
                            hasNextPage = (int (length (take 11 (drop k catalog))) > 10),
                            startCursor = feeds_startCursor (page_request a 10),
                            endCursor = js_String (int k + int (length (take 11 (drop k catalog)))
                               - (if int (length (take 11 (drop k catalog))) > 10 then 1 else 0)),
                            totalCount = int (length catalog)\<rparr>\<rparr>"
proof -
  have c: "catalog_search catalog (case query (page_request a 10) of None \<Rightarrow> '''' | Some q \<Rightarrow> q)
             (feeds_first (page_request a 10) + 1) (feeds_start decimal_Number (page_request a 10))
             (sort_by (page_request a 10)) (sort_order (page_request a 10))
           = Resolved (take 11 (drop k catalog), int (length catalog))"
    by (simp add: assms feeds_first_page_request catalog_search_def)
  show ?thesis
    using feedsResolver_Resolved [where searchFeeds = "catalog_search catalog"
      and input = "page_request a 10" and num = decimal_Number, OF c]
    by (simp add: assms feeds_first_page_request)
qed

lemma page_1_of_25:
  assumes "length catalog = 25"
  shows "\<exists>r. feedsResolver decimal_Number (catalog_search catalog) (page_request '''' 10) = Inr r
     \<and> length (edges r) = 10 \<and> hasNextPage (pageInfo r) \<and> endCursor (pageInfo r) = ''10''
     \<and> map node (edges r) = take 10 catalog"
proof -
  have s: "feeds_start decimal_Number (page_request '''' 10) = int 0"
    by (simp add: feeds_start_page_request)
  show ?thesis
    using assms by (simp add: catalog_page [OF s] js_String_10 butlast_take o_def)
qed

lemma page_2_of_25:
  assumes "length catalog = 25"
  shows "\<exists>r. feedsResolver decimal_Number (catalog_search catalog) (page_request ''10'' 10) = Inr r
     \<and> length (edges r) = 10 \<and> hasNextPage (pageInfo r) \<and> endCursor (pageInfo r) = ''20''
     \<and> map node (edges r) = take 10 (drop 10 catalog)"
proof -
  have s: "feeds_start decimal_Number (page_request ''10'' 10) = int 10"
    by (simp add: feeds_start_page_request decimal_Number_10)
  show ?thesis
    using assms by (simp add: catalog_page [OF s] js_String_20 butlast_take o_def)
qed

lemma page_3_of_25:
  assumes "length catalog = 25"
  shows "\<exists>r. feedsResolver decimal_Number (catalog_search catalog) (page_request ''20'' 10) = Inr r
     \<and> length (edges r) = 5 \<and> \<not> hasNextPage (pageInfo r) \<and> endCursor (pageInfo r) = ''25''
     \<and> map node (edges r) = drop 20 catalog"
proof -
  have s: "feeds_start decimal_Number (page_request ''20'' 10) = int 20"
    by (simp add: feeds_start_page_request decimal_Number_20)
  show ?thesis
    using assms by (simp add: catalog_page [OF s] js_String_25 o_def)
qed

text \<open>
  Claim C3.  When the search, asked for \<open>first + 1\<close> entries from offset \<open>start\<close>,
  resolves to \<open>feeds\<close>, the resolver succeeds with \<open>hasNextPage\<close> true exactly when more
  than \<open>first\<close> entries came back; the edges are those entries without the last one in that
  case and all of them otherwise; and \<open>endCursor\<close> is the decimal string of
  \<open>start + length feeds - (if hasNextPage then 1 else 0)\<close>.  Over a catalog of 25 entries
  with \<open>first = 10\<close>: the page at \<open>after = ""\<close> has 10 edges, a next page and the end cursor
  \<open>"10"\<close>; the page at \<open>after = "10"\<close> has the end cursor \<open>"20"\<close>; the page at
  \<open>after = "20"\<close> has 5 edges and no next page.
\<close>

theorem C3_pagination:
  "(searchFeeds (case query input of None \<Rightarrow> '''' | Some q \<Rightarrow> q)
        (feeds_first input + 1) (feeds_start num input) (sort_by input) (sort_order input)
      = Resolved (feeds, cnt) \<longrightarrow>
    (\<exists>r. feedsResolver num searchFeeds input = Inr r
       \<and> hasNextPage (pageInfo r) = (int (length feeds) > feeds_first input)
       \<and> map node (edges r) = (if hasNextPage (pageInfo r) then butlast feeds else feeds)
       \<and> endCursor (pageInfo r) =
           js_String (feeds_start num input + int (length feeds)
                        - (if hasNextPage (pageInfo r) then 1 else 0))))
   \<and> (length catalog = 25 \<longrightarrow>
    (\<exists>r1 r2 r3.
        feedsResolver decimal_Number (catalog_search catalog) (page_request '''' 10) = Inr r1
      \<and> length (edges r1) = 10 \<and> hasNextPage (pageInfo r1) \<and> endCursor (pageInfo r1) = ''10''
      \<and> feedsResolver decimal_Number (catalog_search catalog) (page_request ''10'' 10) = Inr r2
      \<and> map node (edges r2) = take 10 (drop 10 catalog) \<and> endCursor (pageInfo r2) = ''20''
      \<and> feedsResolver decimal_Number (catalog_search catalog) (page_request ''20'' 10) = Inr r3
      \<and> length (edges r3) = 5 \<and> \<not> hasNextPage (pageInfo r3)))"
proof (intro conjI impI)
  assume a: "searchFeeds (case query input of None \<Rightarrow> '''' | Some q \<Rightarrow> q)
        (feeds_first input + 1) (feeds_start num input) (sort_by input) (sort_order input)
      = Resolved (feeds, cnt)"
  show "\<exists>r. feedsResolver num searchFeeds input = Inr r
       \<and> hasNextPage (pageInfo r) = (int (length feeds) > feeds_first input)
       \<and> map node (edges r) = (if hasNextPage (pageInfo r) then butlast feeds else feeds)
       \<and> endCursor (pageInfo r) =
           js_String (feeds_start num input + int (length feeds)
                        - (if hasNextPage (pageInfo r) then 1 else 0))"
    using a by (simp add: feedsResolver_def Let_def o_def)
next
  assume l: "length catalog = 25"
  from page_1_of_25 [OF l] page_2_of_25 [OF l] page_3_of_25 [OF l]
  show "\<exists>r1 r2 r3.
        feedsResolver decimal_Number (catalog_search catalog) (page_request '''' 10) = Inr r1
      \<and> length (edges r1) = 10 \<and> hasNextPage (pageInfo r1) \<and> endCursor (pageInfo r1) = ''10''
      \<and> feedsResolver decimal_Number (catalog_search catalog) (page_request ''10'' 10) = Inr r2
      \<and> map node (edges r2) = take 10 (drop 10 catalog) \<and> endCursor (pageInfo r2) = ''20''
      \<and> feedsResolver decimal_Number (catalog_search catalog) (page_request ''20'' 10) = Inr r3
      \<and> length (edges r3) = 5 \<and> \<not> hasNextPage (pageInfo r3)"
    by auto
qed

theorem C3_pagination_witness:
  "\<exists>r. feedsResolver decimal_Number (catalog_search [0 ..< 25]) (page_request ''10'' 10) = Inr r
     \<and> hasNextPage (pageInfo r)
     \<and> map node (edges r) = [10 ..< 20]
     \<and> endCursor (pageInfo r) = ''20''"
proof -
  have c: "catalog_search [0 ..< 25]
             (case query (page_request ''10'' 10) of None \<Rightarrow> '''' | Some q \<Rightarrow> q)
             (feeds_first (page_request ''10'' 10) + 1)
             (feeds_start decimal_Number (page_request ''10'' 10))
             (sort_by (page_request ''10'' 10)) (sort_order (page_request ''10'' 10))
           = Resolved ([10 ..< 21], 25)"
    by (simp add: catalog_search_def feeds_first_page_request feeds_start_page_request
        decimal_Number_10 take_upt)
  have l: "length [0 ..< 25] = (25::nat)"
    by simp
  have b: "butlast [10 ..< 21] = [10 ..< 20]"
    by code_simp
  from C3_pagination [where searchFeeds = "catalog_search [0 ..< 25]"
      and input = "page_request ''10'' 10" and num = decimal_Number
      and feeds = "[10 ..< 21]" and cnt = 25 and catalog = "[0 ..< 25]"] c l
  show ?thesis
    by (auto simp add: feeds_first_page_request feeds_start_page_request decimal_Number_10
        js_String_20 b)
qed

text \<open>
  Claim C7, as amended.  The effective page size is capped at 100 and has no lower bound:
  it is 10 when the caller supplies no value or supplies 0, and the smaller one of the
  supplied value and 100 otherwise, so that it is non-negative exactly when the supplied
  value is.  The search is asked for that size plus one.
\<close>

theorem C7_page_size:
  "feeds_first input \<le> 100
   \<and> (first input = None \<longrightarrow> feeds_first input = 10)
   \<and> (first input = Some 0 \<longrightarrow> feeds_first input = 10)
   \<and> (\<forall>f. first input = Some f \<and> f \<noteq> 0 \<longrightarrow> feeds_first input = min f 100)
   \<and> ((0 \<le> feeds_first input) = (\<forall>f. first input = Some f \<longrightarrow> 0 \<le> f))
   \<and> feedsResolver num searchFeeds input =
       feedsResolver num (\<lambda>q limit. searchFeeds q (feeds_first input + 1)) input"
  by (cases "first input") (auto simp add: feeds_first_def feedsResolver_def Let_def)

theorem C7_page_size_witness:
  "feeds_first (page_request '''' 250) = 100 \<and> feeds_first (page_request '''' 7) = 7
   \<and> feeds_first (page_request '''' 0) = 10"
  using C7_page_size [where input = "page_request '''' 250" and num = decimal_Number
      and searchFeeds = "catalog_search ([] :: nat list)"]
    C7_page_size [where input = "page_request '''' 7" and num = decimal_Number
      and searchFeeds = "catalog_search ([] :: nat list)"]
    C7_page_size [where input = "page_request '''' 0" and num = decimal_Number
      and searchFeeds = "catalog_search ([] :: nat list)"]
  by (simp add: page_request_def)

text \<open>
  The claim as stated fails: a negative page size is passed through, and the size 0,
  which lies in the interval, is replaced by 10.
\<close>

theorem C7_clamp_counterexample:
  "\<not> (0 \<le> feeds_first (page_request '''' (- 5)) \<and> feeds_first (page_request '''' (- 5)) \<le> 100)"
  by (simp add: feeds_first_def page_request_def)

section \<open>Properties of subscribeResolver\<close>

lemma findOneBy_Some:
  assumes "findOneBy store u uid ty = Some e"
  shows "e \<in> set store" and "url e = Some u" and "user_id e = uid" and "sub_type e = ty"
  using assms by (auto simp add: findOneBy_def find_Some_iff)

lemma findOneBy_None:
  "findOneBy store u uid ty = None \<longleftrightarrow>
     (\<forall>r \<in> set store. \<not> (url r = Some u \<and> user_id r = uid \<and> sub_type r = ty))"
  by (auto simp add: findOneBy_def find_None_iff)

lemma save_length: "length (save store r) = length store"
  by (simp add: save_def)

lemma save_nth:
  "i < length store \<Longrightarrow> save store r ! i = (if sub_id (store ! i) = sub_id r then r else store ! i)"
  by (simp add: save_def)

lemma save_member:
  assumes "e \<in> set store" and "sub_id r = sub_id e"
  shows "r \<in> set (save store r)"
proof -
  from assms(1) obtain i where "i < length store" and "store ! i = e"
    by (auto simp add: in_set_conv_nth)
  with assms(2) have "save store r ! i = r" and "i < length (save store r)"
    by (simp_all add: save_nth save_length)
  then show ?thesis
    by (metis nth_mem)
qed

lemma subscribe_already_active:
  assumes "findOneBy store (in_url input) uid Rss = Some e" and "status e = Active"
  shows "subscribeResolver env store uid input = (Inl [Subscribe_AlreadySubscribed], store)"
  using assms by (simp add: subscribeResolver_def)

lemma subscribe_resubscribe:
  assumes "findOneBy store (in_url input) uid Rss = Some e" and "status e = Unsubscribed"
  shows "subscribeResolver env store uid input =
           (case enqueueRssFeedFetch env
                   (resubscribe_request uid input (now env) (e\<lparr>status := Active\<rparr>)) of
              Rejected msg \<Rightarrow> Inl (subscribe_catch msg)
            | Resolved u \<Rightarrow> Inr [e\<lparr>status := Active\<rparr>],
            save store (e\<lparr>status := Active\<rparr>))"
  using assms by (simp add: subscribeResolver_def Let_def split: awaited.splits)

text \<open>
  Claim C2.  When the lookup for (user, url, RSS) finds a row whose status is \<open>ACTIVE\<close>,
  the call returns \<open>AlreadySubscribed\<close> and leaves the table as it was.  When it finds a
  row whose status is \<open>UNSUBSCRIBED\<close>, the table keeps its length, the row is stored with
  the status \<open>ACTIVE\<close> and with the \<open>lastFetchedAt\<close> and \<open>lastFetchedChecksum\<close> it had,
  the rows with another id stay as they were, and the call returns the updated row once
  the fetch request is enqueued (a rejected request ends in the \<open>catch\<close> block, after
  the write).
\<close>

theorem C2_existing_subscription:
  "(findOneBy store (in_url input) uid Rss = Some e \<and> status e = Active \<longrightarrow>
      subscribeResolver env store uid input = (Inl [Subscribe_AlreadySubscribed], store))
   \<and> (findOneBy store (in_url input) uid Rss = Some e \<and> status e = Unsubscribed \<longrightarrow>
      (\<exists>e' store'.
          snd (subscribeResolver env store uid input) = store'
        \<and> length store' = length store
        \<and> e' \<in> set store'
        \<and> sub_id e' = sub_id e
        \<and> status e' = Active
        \<and> lastFetchedAt e' = lastFetchedAt e
        \<and> lastFetchedChecksum e' = lastFetchedChecksum e
        \<and> e' = e\<lparr>status := Active\<rparr>
        \<and> (\<forall>i. i < length store \<longrightarrow>
              store' ! i = (if sub_id (store ! i) = sub_id e then e' else store ! i))
        \<and> (\<forall>u. enqueueRssFeedFetch env (resubscribe_request uid input (now env) e') = Resolved u
              \<longrightarrow> fst (subscribeResolver env store uid input) = Inr [e'])
        \<and> (\<forall>msg. enqueueRssFeedFetch env (resubscribe_request uid input (now env) e') = Rejected msg
              \<longrightarrow> fst (subscribeResolver env store uid input) = Inl (subscribe_catch msg))))"
proof (intro conjI impI)
  assume "findOneBy store (in_url input) uid Rss = Some e \<and> status e = Active"
  then show "subscribeResolver env store uid input = (Inl [Subscribe_AlreadySubscribed], store)"
    by (simp add: subscribe_already_active)
next
  assume a: "findOneBy store (in_url input) uid Rss = Some e \<and> status e = Unsubscribed"
  let ?e = "e\<lparr>status := Active\<rparr>"
  from a have r: "subscribeResolver env store uid input =
           (case enqueueRssFeedFetch env (resubscribe_request uid input (now env) ?e) of
              Rejected msg \<Rightarrow> Inl (subscribe_catch msg)
            | Resolved u \<Rightarrow> Inr [?e],
            save store ?e)"
    by (simp add: subscribe_resubscribe)
  from a have m: "?e \<in> set (save store ?e)"
    using findOneBy_Some(1) [of store "in_url input" uid Rss e] save_member [of e store ?e]
    by simp
  show "\<exists>e' store'.
          snd (subscribeResolver env store uid input) = store'
        \<and> length store' = length store
        \<and> e' \<in> set store'
        \<and> sub_id e' = sub_id e
        \<and> status e' = Active
        \<and> lastFetchedAt e' = lastFetchedAt e
        \<and> lastFetchedChecksum e' = lastFetchedChecksum e
        \<and> e' = e\<lparr>status := Active\<rparr>
        \<and> (\<forall>i. i < length store \<longrightarrow>
              store' ! i = (if sub_id (store ! i) = sub_id e then e' else store ! i))
        \<and> (\<forall>u. enqueueRssFeedFetch env (resubscribe_request uid input (now env) e') = Resolved u
              \<longrightarrow> fst (subscribeResolver env store uid input) = Inr [e'])
        \<and> (\<forall>msg. enqueueRssFeedFetch env (resubscribe_request uid input (now env) e') = Rejected msg
              \<longrightarrow> fst (subscribeResolver env store uid input) = Inl (subscribe_catch msg))"
    using m by (intro exI [of _ ?e] exI [of _ "save store ?e"]) (simp add: r save_length save_nth)
qed

theorem C2_existing_subscription_witness:
  "subscribeResolver (example_env (Resolved None) (Resolved ())) example_store ''u1''
      (example_input ''b'') = (Inl [Subscribe_AlreadySubscribed], example_store)
   \<and> fst (subscribeResolver (example_env (Resolved None) (Resolved ())) example_store ''u1''
        (example_input ''a''))
      = Inr [example_row ''s1'' ''u1'' Rss ''a'' Active 10 (Some 500)]
   \<and> snd (subscribeResolver (example_env (Resolved None) (Resolved ())) example_store ''u1''
        (example_input ''a''))
      = example_row ''s1'' ''u1'' Rss ''a'' Active 10 (Some 500) # tl example_store"
proof -
  let ?env = "example_env (Resolved None) (Resolved ())"
  have b: "findOneBy example_store (in_url (example_input ''b'')) ''u1'' Rss
             = Some (example_row ''s2'' ''u1'' Rss ''b'' Active 20 None)
           \<and> status (example_row ''s2'' ''u1'' Rss ''b'' Active 20 None) = Active"
    by (simp add: findOneBy_def example_store_def example_row_def example_input_def)
  have a: "findOneBy example_store (in_url (example_input ''a'')) ''u1'' Rss
             = Some (example_row ''s1'' ''u1'' Rss ''a'' Unsubscribed 10 (Some 500))
           \<and> status (example_row ''s1'' ''u1'' Rss ''a'' Unsubscribed 10 (Some 500)) = Unsubscribed"
    by (simp add: findOneBy_def example_store_def example_row_def example_input_def)
  have q: "enqueueRssFeedFetch ?env x = Resolved ()" for x
    by (simp add: example_env_def)
  have e: "(example_row ''s1'' ''u1'' Rss ''a'' Unsubscribed 10 (Some 500))\<lparr>status := Active\<rparr>
             = example_row ''s1'' ''u1'' Rss ''a'' Active 10 (Some 500)"
    by (simp add: example_row_def)
  from C2_existing_subscription [of example_store "example_input ''b''" "''u1''"
      "example_row ''s2'' ''u1'' Rss ''b'' Active 20 None" ?env] b
  have 1: "subscribeResolver ?env example_store ''u1'' (example_input ''b'')
             = (Inl [Subscribe_AlreadySubscribed], example_store)"
    by blast
  from C2_existing_subscription [of example_store "example_input ''a''" "''u1''"
      "example_row ''s1'' ''u1'' Rss ''a'' Unsubscribed 10 (Some 500)" ?env] a
  obtain e' store' where
      s: "snd (subscribeResolver ?env example_store ''u1'' (example_input ''a'')) = store'"
    and l: "length store' = length example_store"
    and e': "e' = (example_row ''s1'' ''u1'' Rss ''a'' Unsubscribed 10 (Some 500))\<lparr>status := Active\<rparr>"
    and n: "\<forall>i. i < length example_store \<longrightarrow>
              store' ! i = (if sub_id (example_store ! i)
                               = sub_id (example_row ''s1'' ''u1'' Rss ''a'' Unsubscribed 10 (Some 500))
                            then e' else example_store ! i)"
    and f: "\<forall>u. enqueueRssFeedFetch ?env
                  (resubscribe_request ''u1'' (example_input ''a'') (now ?env) e') = Resolved u
              \<longrightarrow> fst (subscribeResolver ?env example_store ''u1'' (example_input ''a'')) = Inr [e']"
    by blast
  from f q have 2: "fst (subscribeResolver ?env example_store ''u1'' (example_input ''a''))
      = Inr [example_row ''s1'' ''u1'' Rss ''a'' Active 10 (Some 500)]"
    by (simp add: e' e)
  have 3: "store' = example_row ''s1'' ''u1'' Rss ''a'' Active 10 (Some 500) # tl example_store"
  proof (rule nth_equalityI)
    show "length store' = length (example_row ''s1'' ''u1'' Rss ''a'' Active 10 (Some 500) # tl example_store)"
      by (simp add: l example_store_def)
  next
    fix i
    assume "i < length store'"
    then have "i < 6"
      by (simp add: l example_store_def)
    then have "i = 0 \<or> i = 1 \<or> i = 2 \<or> i = 3 \<or> i = 4 \<or> i = 5"
      by arith
    then show "store' ! i = (example_row ''s1'' ''u1'' Rss ''a'' Active 10 (Some 500) # tl example_store) ! i"
      using n by (auto simp add: e' e example_store_def example_row_def)
  qed
  from 1 2 3 s show ?thesis
    by simp
qed

lemma insert_query_results:
  "insert_query defaults store p1 p2 p3 p4 p5 p6 p7 p8 p9 =
     (if count_active_rss store p5 < p9
      then ([defaults\<lparr>name := p1, url := Some p2, description := p3, sub_type := p4,
                       user_id := p5, icon := p6, autoAddToLibrary := p7, isPrivate := p8\<rparr>],
            store @ [defaults\<lparr>name := p1, url := Some p2, description := p3, sub_type := p4,
                       user_id := p5, icon := p6, autoAddToLibrary := p7, isPrivate := p8\<rparr>])
      else ([], store))"
  by (simp add: insert_query_def Let_def)

text \<open>
  One run of the insert statement keeps a user's number of active RSS rows within the
  quota, whatever status the database gives to a new row.
\<close>

lemma insert_query_within_quota:
  assumes "count_active_rss store p5 \<le> p9"
  shows "count_active_rss (snd (insert_query defaults store p1 p2 p3 p4 p5 p6 p7 p8 p9)) p5 \<le> p9"
  using assms by (simp add: insert_query_results count_active_rss_def)

lemma new_subscription_request_flag:
  "addToLibraryFlags (new_subscription_request uid input today row) = [False]"
  by (simp add: new_subscription_request_def raw_row_autoAddToLibrary_def not_not_def)

lemma subscribe_not_a_feed:
  assumes "findOneBy store (in_url input) uid Rss = None"
    and "parseFeed env (in_url input) = Resolved None"
  shows "subscribeResolver env store uid input = (Inl [Subscribe_NotFound], store)"
  using assms by (simp add: subscribeResolver_def)

lemma subscribe_parse_rejected:
  assumes "findOneBy store (in_url input) uid Rss = None"
    and "parseFeed env (in_url input) = Rejected msg"
  shows "subscribeResolver env store uid input = (Inl (subscribe_catch msg), store)"
  using assms by (simp add: subscribeResolver_def)

lemma subscribe_new:
  assumes "findOneBy store (in_url input) uid Rss = None"
    and "parseFeed env (in_url input) = Resolved (Some feed)"
  shows "subscribeResolver env store uid input =
     (case insert_query (column_defaults env) store
             (title feed) (feed_url feed) (or_null (feed_description feed)) Rss uid
             (or_null (thumbnail feed)) (in_autoAddToLibrary input) (in_isPrivate input)
             MAX_RSS_SUBSCRIPTIONS of
        ([], store') \<Rightarrow> (Inl [Subscribe_ExceededMaxSubscriptions], store')
      | (newSubscription # rest, store') \<Rightarrow>
          (case enqueueRssFeedFetch env
                  (new_subscription_request uid input (now env) newSubscription) of
             Rejected msg \<Rightarrow> (Inl (subscribe_catch msg), store')
           | Resolved u \<Rightarrow> (Inr [newSubscription], store')))"
  using assms by (simp add: subscribeResolver_def)

text \<open>
  Claim C4.  Let the lookup for (user, url, RSS) find no row.  When the parser resolves to
  no feed, the call fails with \<open>NotFound\<close> and the table is as it was (a rejection of the
  parser is mapped by the \<open>catch\<close> block: \<open>NotFound\<close> for the message
  \<open>Status code 404\<close>, \<open>BadRequest\<close> otherwise).  When it resolves to
  a feed, the insert statement runs with the quota 150: its result is empty exactly when
  the user already has 150 or more active RSS rows, and then the call fails with
  \<open>ExceededMaxSubscriptions\<close> (a returned error code, the table as it was); otherwise its
  result is one row, which is appended to the table, and the call returns that row once
  the fetch request for it is enqueued; that request carries the add-to-library flag
  \<open>false\<close>, whatever the caller asked for.
\<close>

theorem C4_new_subscription:
  "findOneBy store (in_url input) uid Rss = None \<longrightarrow>
     (parseFeed env (in_url input) = Resolved None \<longrightarrow>
        subscribeResolver env store uid input = (Inl [Subscribe_NotFound], store))
   \<and> (\<forall>msg. parseFeed env (in_url input) = Rejected msg \<longrightarrow>
        subscribeResolver env store uid input =
          (Inl (if msg = ''Status code 404'' then [Subscribe_NotFound] else [Subscribe_BadRequest]),
           store))
   \<and> (\<forall>feed. parseFeed env (in_url input) = Resolved (Some feed) \<longrightarrow>
        (\<exists>results store'.
            insert_query (column_defaults env) store
              (title feed) (feed_url feed) (or_null (feed_description feed)) Rss uid
              (or_null (thumbnail feed)) (in_autoAddToLibrary input) (in_isPrivate input)
              MAX_RSS_SUBSCRIPTIONS = (results, store')
          \<and> MAX_RSS_SUBSCRIPTIONS = 150
          \<and> (results = [] \<longleftrightarrow> 150 \<le> count_active_rss store uid)
          \<and> (results = [] \<longrightarrow>
                store' = store
              \<and> subscribeResolver env store uid input
                  = (Inl [Subscribe_ExceededMaxSubscriptions], store))
          \<and> (results \<noteq> [] \<longrightarrow>
                (\<exists>row. results = [row] \<and> store' = store @ [row]
                   \<and> snd (subscribeResolver env store uid input) = store @ [row]
                   \<and> addToLibraryFlags (new_subscription_request uid input (now env) row)
                       = [False]
                   \<and> (\<forall>u. enqueueRssFeedFetch env
                              (new_subscription_request uid input (now env) row) = Resolved u
                          \<longrightarrow> subscribeResolver env store uid input = (Inr [row], store @ [row]))))))"
proof (intro impI conjI allI)
  assume "findOneBy store (in_url input) uid Rss = None"
    and "parseFeed env (in_url input) = Resolved None"
  then show "subscribeResolver env store uid input = (Inl [Subscribe_NotFound], store)"
    by (rule subscribe_not_a_feed)
next
  fix msg
  assume "findOneBy store (in_url input) uid Rss = None"
    and "parseFeed env (in_url input) = Rejected msg"
  then show "subscribeResolver env store uid input =
          (Inl (if msg = ''Status code 404'' then [Subscribe_NotFound] else [Subscribe_BadRequest]),
           store)"
    by (simp add: subscribe_parse_rejected subscribe_catch_def)
next
  fix feed
  assume n: "findOneBy store (in_url input) uid Rss = None"
    and p: "parseFeed env (in_url input) = Resolved (Some feed)"
  let ?row = "(column_defaults env)\<lparr>name := title feed, url := Some (feed_url feed),
      description := or_null (feed_description feed), sub_type := Rss, user_id := uid,
      icon := or_null (thumbnail feed), autoAddToLibrary := in_autoAddToLibrary input,
      isPrivate := in_isPrivate input\<rparr>"
  show "\<exists>results store'.
            insert_query (column_defaults env) store
              (title feed) (feed_url feed) (or_null (feed_description feed)) Rss uid
              (or_null (thumbnail feed)) (in_autoAddToLibrary input) (in_isPrivate input)
              MAX_RSS_SUBSCRIPTIONS = (results, store')
          \<and> MAX_RSS_SUBSCRIPTIONS = 150
          \<and> (results = [] \<longleftrightarrow> 150 \<le> count_active_rss store uid)
          \<and> (results = [] \<longrightarrow>
                store' = store
              \<and> subscribeResolver env store uid input
                  = (Inl [Subscribe_ExceededMaxSubscriptions], store))
          \<and> (results \<noteq> [] \<longrightarrow>
                (\<exists>row. results = [row] \<and> store' = store @ [row]
                   \<and> snd (subscribeResolver env store uid input) = store @ [row]
                   \<and> addToLibraryFlags (new_subscription_request uid input (now env) row)
                       = [False]
                   \<and> (\<forall>u. enqueueRssFeedFetch env
                              (new_subscription_request uid input (now env) row) = Resolved u
                          \<longrightarrow> subscribeResolver env store uid input = (Inr [row], store @ [row]))))"
  proof (cases "count_active_rss store uid < 150")
    case True
    then show ?thesis
      by (intro exI [of _ "[?row]"] exI [of _ "store @ [?row]"])
        (simp add: subscribe_new [OF n p] insert_query_results MAX_RSS_SUBSCRIPTIONS_def
          new_subscription_request_flag split: awaited.splits)
  next
    case False
    then show ?thesis
      by (intro exI [of _ "[]"] exI [of _ store])
        (simp add: subscribe_new [OF n p] insert_query_results MAX_RSS_SUBSCRIPTIONS_def)
  qed
qed

lemma example_store_no_y: "findOneBy example_store (in_url (example_input ''y'')) ''u1'' Rss = None"
  by (simp add: findOneBy_def example_store_def example_row_def example_input_def)

lemma full_store_no_y: "findOneBy full_store (in_url (example_input ''y'')) ''u1'' Rss = None"
  by (simp add: findOneBy_None full_store_def example_row_def example_input_def)

lemma count_example_store: "count_active_rss example_store ''u1'' = 2"
  by (simp add: count_active_rss_def example_store_def example_row_def)

lemma count_full_store: "count_active_rss full_store ''u1'' = 150"
  by (simp add: count_active_rss_def full_store_def example_row_def)

theorem C4_new_subscription_witness:
  "subscribeResolver (example_env (Resolved None) (Resolved ())) example_store ''u1''
      (example_input ''y'') = (Inl [Subscribe_NotFound], example_store)
   \<and> subscribeResolver (example_env (Resolved (Some (example_feed ''z''))) (Resolved ()))
        full_store ''u1'' (example_input ''y'')
      = (Inl [Subscribe_ExceededMaxSubscriptions], full_store)
   \<and> fst (subscribeResolver (strict_env (Resolved (Some (example_feed ''z'')))) example_store
        ''u1'' (example_input ''y''))
      = Inr [(example_row ''s7'' ''u1'' Rss ''z'' Active 1000 None)
               \<lparr>name := ''T'', description := None, icon := Some ''i'',
                autoAddToLibrary := Some True\<rparr>]"
proof -
  let ?none = "example_env (Resolved None) (Resolved ())"
  let ?some = "example_env (Resolved (Some (example_feed ''z''))) (Resolved ())"
  have pn: "parseFeed ?none (in_url (example_input ''y'')) = Resolved None"
    by (simp add: example_env_def)
  have ps: "parseFeed ?some (in_url (example_input ''y'')) = Resolved (Some (example_feed ''z''))"
    by (simp add: example_env_def)
  let ?strict = "strict_env (Resolved (Some (example_feed ''z'')))"
  have pt: "parseFeed ?strict (in_url (example_input ''y'')) = Resolved (Some (example_feed ''z''))"
    by (simp add: strict_env_def)
  have q: "enqueueRssFeedFetch ?strict (new_subscription_request uid input today row) = Resolved ()"
    for uid input today row
    by (simp add: strict_env_def new_subscription_request_flag)
  from C4_new_subscription [of example_store "example_input ''y''" "''u1''" ?none]
    example_store_no_y pn
  have 1: "subscribeResolver ?none example_store ''u1'' (example_input ''y'')
      = (Inl [Subscribe_NotFound], example_store)"
    by blast
  from C4_new_subscription [of full_store "example_input ''y''" "''u1''" ?some]
    full_store_no_y ps
  obtain results store' where
    "results = [] \<longleftrightarrow> 150 \<le> count_active_rss full_store ''u1''"
    "results = [] \<longrightarrow> store' = full_store
      \<and> subscribeResolver ?some full_store ''u1'' (example_input ''y'')
          = (Inl [Subscribe_ExceededMaxSubscriptions], full_store)"
    by blast
  then have 2: "subscribeResolver ?some full_store ''u1'' (example_input ''y'')
      = (Inl [Subscribe_ExceededMaxSubscriptions], full_store)"
    by (simp add: count_full_store)
  from C4_new_subscription [of example_store "example_input ''y''" "''u1''" ?strict]
    example_store_no_y pt
  obtain results store' where
    i: "insert_query (column_defaults ?strict) example_store
              (title (example_feed ''z'')) (feed_url (example_feed ''z''))
              (or_null (feed_description (example_feed ''z''))) Rss ''u1''
              (or_null (thumbnail (example_feed ''z''))) (in_autoAddToLibrary (example_input ''y''))
              (in_isPrivate (example_input ''y'')) MAX_RSS_SUBSCRIPTIONS = (results, store')"
    and r: "results \<noteq> [] \<longrightarrow>
                (\<exists>row. results = [row] \<and> store' = example_store @ [row]
                   \<and> snd (subscribeResolver ?strict example_store ''u1'' (example_input ''y''))
                       = example_store @ [row]
                   \<and> addToLibraryFlags
                         (new_subscription_request ''u1'' (example_input ''y'') (now ?strict) row)
                       = [False]
                   \<and> (\<forall>u. enqueueRssFeedFetch ?strict
                              (new_subscription_request ''u1'' (example_input ''y'') (now ?strict) row)
                            = Resolved u
                          \<longrightarrow> subscribeResolver ?strict example_store ''u1'' (example_input ''y'')
                              = (Inr [row], example_store @ [row])))"
    by blast
  from i have "results = [(example_row ''s7'' ''u1'' Rss ''z'' Active 1000 None)
               \<lparr>name := ''T'', description := None, icon := Some ''i'',
                autoAddToLibrary := Some True\<rparr>]"
    by (simp add: insert_query_results count_example_store MAX_RSS_SUBSCRIPTIONS_def
        strict_env_def example_feed_def example_input_def example_row_def or_null_def)
  with r q have 3: "fst (subscribeResolver ?strict example_store ''u1'' (example_input ''y''))
      = Inr [(example_row ''s7'' ''u1'' Rss ''z'' Active 1000 None)
               \<lparr>name := ''T'', description := None, icon := Some ''i'',
                autoAddToLibrary := Some True\<rparr>]"
    by simp
  from 1 2 3 show ?thesis
    by simp
qed

lemma findOneBy_append_other:
  assumes "findOneBy store u uid ty = None" and "url row \<noteq> Some u"
  shows "findOneBy (store @ [row]) u uid ty = None"
  using assms by (simp add: findOneBy_None)

text \<open>
  Claim C9.  When a subscribe call creates a row (no row is found for the input url, the
  parser finds a feed, the user has fewer than 150 active RSS rows), the row appended to
  the table has the feed's title as its name, the feed's own url as its url, and the
  feed's description and thumbnail as its description and icon (\<open>NULL\<close> when the feed
  has none or an empty one); none of the four is read from the input.  When the feed's
  own url differs from the input url, the stored url is not the input url, and the lookup
  of a later subscribe call with the same input url finds no row.
\<close>

theorem C9_new_row_from_feed:
  "findOneBy store (in_url input) uid Rss = None
   \<and> parseFeed env (in_url input) = Resolved (Some feed)
   \<and> count_active_rss store uid < 150 \<longrightarrow>
     (\<exists>row. snd (subscribeResolver env store uid input) = store @ [row]
        \<and> name row = title feed
        \<and> url row = Some (feed_url feed)
        \<and> description row =
            (case feed_description feed of None \<Rightarrow> None
             | Some d \<Rightarrow> if d = '''' then None else Some d)
        \<and> icon row =
            (case thumbnail feed of None \<Rightarrow> None | Some t \<Rightarrow> if t = '''' then None else Some t)
        \<and> sub_type row = Rss
        \<and> user_id row = uid
        \<and> (\<forall>u. enqueueRssFeedFetch env (new_subscription_request uid input (now env) row)
                  = Resolved u
              \<longrightarrow> fst (subscribeResolver env store uid input) = Inr [row])
        \<and> (feed_url feed \<noteq> in_url input \<longrightarrow>
              url row \<noteq> Some (in_url input)
            \<and> findOneBy (store @ [row]) (in_url input) uid Rss = None))"
proof (intro impI)
  assume a: "findOneBy store (in_url input) uid Rss = None
   \<and> parseFeed env (in_url input) = Resolved (Some feed)
   \<and> count_active_rss store uid < 150"
  let ?row = "(column_defaults env)\<lparr>name := title feed, url := Some (feed_url feed),
      description := or_null (feed_description feed), sub_type := Rss, user_id := uid,
      icon := or_null (thumbnail feed), autoAddToLibrary := in_autoAddToLibrary input,
      isPrivate := in_isPrivate input\<rparr>"
  from a have n: "findOneBy store (in_url input) uid Rss = None"
    and p: "parseFeed env (in_url input) = Resolved (Some feed)"
    and c: "count_active_rss store uid < 150"
    by simp_all
  have r: "subscribeResolver env store uid input =
      (case enqueueRssFeedFetch env (new_subscription_request uid input (now env) ?row) of
         Rejected msg \<Rightarrow> (Inl (subscribe_catch msg), store @ [?row])
       | Resolved u \<Rightarrow> (Inr [?row], store @ [?row]))"
    using c by (simp add: subscribe_new [OF n p] insert_query_results MAX_RSS_SUBSCRIPTIONS_def)
  have s: "snd (subscribeResolver env store uid input) = store @ [?row]"
    by (simp add: r split: awaited.splits)
  have f: "\<forall>u. enqueueRssFeedFetch env (new_subscription_request uid input (now env) ?row)
                  = Resolved u
              \<longrightarrow> fst (subscribeResolver env store uid input) = Inr [?row]"
    by (simp add: r)
  have l: "feed_url feed \<noteq> in_url input \<longrightarrow>
              url ?row \<noteq> Some (in_url input)
            \<and> findOneBy (store @ [?row]) (in_url input) uid Rss = None"
    using findOneBy_append_other [OF n, of ?row] by simp
  have d: "description ?row =
            (case feed_description feed of None \<Rightarrow> None
             | Some d \<Rightarrow> if d = '''' then None else Some d)"
    and i: "icon ?row =
            (case thumbnail feed of None \<Rightarrow> None | Some t \<Rightarrow> if t = '''' then None else Some t)"
    by (simp_all add: or_null_def)
  have o: "name ?row = title feed \<and> url ?row = Some (feed_url feed) \<and> sub_type ?row = Rss
      \<and> user_id ?row = uid"
    by simp
  from s f l d i o
  show "\<exists>row. snd (subscribeResolver env store uid input) = store @ [row]
        \<and> name row = title feed
        \<and> url row = Some (feed_url feed)
        \<and> description row =
            (case feed_description feed of None \<Rightarrow> None
             | Some d \<Rightarrow> if d = '''' then None else Some d)
        \<and> icon row =
            (case thumbnail feed of None \<Rightarrow> None | Some t \<Rightarrow> if t = '''' then None else Some t)
        \<and> sub_type row = Rss
        \<and> user_id row = uid
        \<and> (\<forall>u. enqueueRssFeedFetch env (new_subscription_request uid input (now env) row)
                  = Resolved u
              \<longrightarrow> fst (subscribeResolver env store uid input) = Inr [row])
        \<and> (feed_url feed \<noteq> in_url input \<longrightarrow>
              url row \<noteq> Some (in_url input)
            \<and> findOneBy (store @ [row]) (in_url input) uid Rss = None)"
    by (intro exI [of _ ?row] conjI) (elim conjE, assumption)+
qed

theorem C9_new_row_from_feed_witness:
  "\<exists>row. snd (subscribeResolver (example_env (Resolved (Some (example_feed ''z''))) (Resolved ()))
              example_store ''u1'' (example_input ''y'')) = example_store @ [row]
     \<and> name row = ''T'' \<and> url row = Some ''z'' \<and> description row = None \<and> icon row = Some ''i''
     \<and> url row \<noteq> Some ''y''
     \<and> findOneBy (example_store @ [row]) ''y'' ''u1'' Rss = None"
proof -
  let ?some = "example_env (Resolved (Some (example_feed ''z''))) (Resolved ())"
  have h: "findOneBy example_store (in_url (example_input ''y'')) ''u1'' Rss = None
     \<and> parseFeed ?some (in_url (example_input ''y'')) = Resolved (Some (example_feed ''z''))
     \<and> count_active_rss example_store ''u1'' < 150"
    by (simp add: example_store_no_y count_example_store example_env_def)
  have d: "feed_url (example_feed ''z'') \<noteq> in_url (example_input ''y'')"
    by (simp add: example_feed_def example_input_def)
  from C9_new_row_from_feed [of example_store "example_input ''y''" "''u1''" ?some
      "example_feed ''z''"] h
  obtain row where
    "snd (subscribeResolver ?some example_store ''u1'' (example_input ''y'')) = example_store @ [row]"
    "name row = title (example_feed ''z'')"
    "url row = Some (feed_url (example_feed ''z''))"
    "description row =
            (case feed_description (example_feed ''z'') of None \<Rightarrow> None
             | Some d \<Rightarrow> if d = '''' then None else Some d)"
    "icon row =
            (case thumbnail (example_feed ''z'') of None \<Rightarrow> None
             | Some t \<Rightarrow> if t = '''' then None else Some t)"
    "feed_url (example_feed ''z'') \<noteq> in_url (example_input ''y'') \<longrightarrow>
              url row \<noteq> Some (in_url (example_input ''y''))
            \<and> findOneBy (example_store @ [row]) (in_url (example_input ''y'')) ''u1'' Rss = None"
    by blast
  with d show ?thesis
    by (intro exI [of _ row]) (simp add: example_feed_def example_input_def)
qed

section \<open>Properties of scanFeedsResolver\<close>

lemma scan_not_html:
  assumes "or_default (opml input) '''' = ''''"
    and "or_default (scan_url input) '''' = u" and "u \<noteq> ''''"
    and "axios_get env u = Resolved response"
    and "\<not> (case content_type response of None \<Rightarrow> False | Some ct \<Rightarrow> js_includes ct ''text/html'')"
  shows "scanFeedsResolver env input =
           (case scan_parseFeed env u of
              Rejected msg \<Rightarrow> Inl [Scan_BadRequest]
            | Resolved None \<Rightarrow> Inl [Scan_BadRequest]
            | Resolved (Some feed) \<Rightarrow> Inr [feed])"
  using assms by (simp add: scanFeedsResolver_def Let_def)

text \<open>
  Claim C8, as amended.  For every scan call with no OPML text and a URL whose response
  is not HTML (no content type, or one that does not contain \<open>text/html\<close>), the feed
  parser decides: when it finds a feed, the result is exactly one candidate, that feed
  with its own title and url; when it finds none, or rejects, the call fails with
  \<open>BadRequest\<close>.
\<close>

theorem C8_scan_feed_url:
  "or_default (opml input) '''' = '''' \<and> or_default (scan_url input) '''' = u \<and> u \<noteq> ''''
   \<and> axios_get env u = Resolved response
   \<and> \<not> (case content_type response of None \<Rightarrow> False | Some ct \<Rightarrow> js_includes ct ''text/html'')
   \<longrightarrow>
     (\<forall>feed. scan_parseFeed env u = Resolved (Some feed) \<longrightarrow>
        (\<exists>c. scanFeedsResolver env input = Inr [c]
           \<and> title c = title feed \<and> feed_url c = feed_url feed \<and> c = feed))
   \<and> (scan_parseFeed env u = Resolved None \<longrightarrow> scanFeedsResolver env input = Inl [Scan_BadRequest])
   \<and> (\<forall>msg. scan_parseFeed env u = Rejected msg \<longrightarrow>
        scanFeedsResolver env input = Inl [Scan_BadRequest])"
proof (intro impI)
  assume a: "or_default (opml input) '''' = '''' \<and> or_default (scan_url input) '''' = u \<and> u \<noteq> ''''
   \<and> axios_get env u = Resolved response
   \<and> \<not> (case content_type response of None \<Rightarrow> False | Some ct \<Rightarrow> js_includes ct ''text/html'')"
  then have "scanFeedsResolver env input =
           (case scan_parseFeed env u of
              Rejected msg \<Rightarrow> Inl [Scan_BadRequest]
            | Resolved None \<Rightarrow> Inl [Scan_BadRequest]
            | Resolved (Some feed) \<Rightarrow> Inr [feed])"
    using scan_not_html [of input u env response] by blast
  then show "(\<forall>feed. scan_parseFeed env u = Resolved (Some feed) \<longrightarrow>
        (\<exists>c. scanFeedsResolver env input = Inr [c]
           \<and> title c = title feed \<and> feed_url c = feed_url feed \<and> c = feed))
   \<and> (scan_parseFeed env u = Resolved None \<longrightarrow> scanFeedsResolver env input = Inl [Scan_BadRequest])
   \<and> (\<forall>msg. scan_parseFeed env u = Rejected msg \<longrightarrow>
        scanFeedsResolver env input = Inl [Scan_BadRequest])"
    by simp
qed

lemma example_scan_not_html:
  "or_default (opml example_scan_input) '''' = ''''
   \<and> or_default (scan_url example_scan_input) '''' = ''y'' \<and> ''y'' \<noteq> ''''
   \<and> axios_get (example_scan_env parsed) ''y''
       = Resolved \<lparr>data = ''x'', content_type = Some ''application/xml''\<rparr>
   \<and> \<not> (case content_type \<lparr>data = ''x'', content_type = Some ''application/xml''\<rparr> of
          None \<Rightarrow> False | Some ct \<Rightarrow> js_includes ct ''text/html'')"
  by (simp add: example_scan_input_def example_scan_env_def or_default_def)

theorem C8_scan_feed_url_witness:
  "scanFeedsResolver (example_scan_env (Resolved (Some (example_feed ''z'')))) example_scan_input
     = Inr [example_feed ''z'']"
proof -
  have "scan_parseFeed (example_scan_env (Resolved (Some (example_feed ''z'')))) ''y''
      = Resolved (Some (example_feed ''z''))"
    by (simp add: example_scan_env_def)
  with C8_scan_feed_url [of example_scan_input "''y''"
      "example_scan_env (Resolved (Some (example_feed ''z'')))"
      "\<lparr>data = ''x'', content_type = Some ''application/xml''\<rparr>"]
    example_scan_not_html [of "Resolved (Some (example_feed ''z''))"]
  show ?thesis
    by blast
qed

text \<open>
  The claim as stated fails: a body that is not HTML and does not parse as a feed makes
  the call fail with \<open>BadRequest\<close>, not with \<open>NotFound\<close>.
\<close>

theorem C8_not_found_counterexample:
  "scanFeedsResolver (example_scan_env (Resolved None)) example_scan_input = Inl [Scan_BadRequest]
   \<and> scanFeedsResolver (example_scan_env (Resolved None)) example_scan_input \<noteq> Inl [Scan_NotFound]"
  by (simp add: scanFeedsResolver_def example_scan_env_def example_scan_input_def or_default_def)

section \<open>Properties of updateSubscriptionResolver\<close>

lemma write_defined_keeps:
  "sub_id (write_defined p r) = sub_id r" "user_id (write_defined p r) = user_id r"
  "sub_type (write_defined p r) = sub_type r" "url (write_defined p r) = url r"
  "icon (write_defined p r) = icon r" "createdAt (write_defined p r) = createdAt r"
  by (simp_all add: write_defined_def)

lemma save_partial_length: "length (save_partial store p) = length store"
  by (simp add: save_partial_def)

lemma save_partial_nth:
  "i < length store \<Longrightarrow>
     save_partial store p ! i = (if sub_id (store ! i) = p_id p then write_defined p (store ! i) else store ! i)"
  by (simp add: save_partial_def)

lemma reread_after_save:
  assumes "find (\<lambda>x. sub_id x = p_id p) store = Some r" and "user_id r = uid"
  shows "findOneByOrFail (save_partial store p) (p_id p) uid = Some (write_defined p r)"
  using assms
  by (induction store) (auto simp add: findOneByOrFail_def save_partial_def write_defined_keeps)

lemma update_found:
  assumes "find (\<lambda>x. sub_id x = upd_id input) store = Some r" and "user_id r = uid"
  shows "updateSubscriptionResolver store uid input =
           (Inr (write_defined (update_payload input) r), save_partial store (update_payload input))"
proof -
  have i: "p_id (update_payload input) = upd_id input"
    by (simp add: update_payload_def)
  from assms reread_after_save [of "update_payload input" store r uid]
  have "findOneByOrFail (save_partial store (update_payload input)) (upd_id input) uid
          = Some (write_defined (update_payload input) r)"
    by (simp add: i)
  with assms(1) show ?thesis
    by (simp add: updateSubscriptionResolver_def Let_def)
qed

lemma empty_string_is_undefined: "or_undefined (Some '''') = or_undefined None"
  by (simp add: or_undefined_def)

lemma payload_empty_name:
  "update_payload (input\<lparr>upd_name := Some ''''\<rparr>) = update_payload (input\<lparr>upd_name := None\<rparr>)"
  by (simp add: update_payload_def empty_string_is_undefined)

lemma payload_empty_description:
  "update_payload (input\<lparr>upd_description := Some ''''\<rparr>)
     = update_payload (input\<lparr>upd_description := None\<rparr>)"
  by (simp add: update_payload_def empty_string_is_undefined)

lemma payload_empty_checksum:
  "update_payload (input\<lparr>upd_lastFetchedChecksum := Some ''''\<rparr>)
     = update_payload (input\<lparr>upd_lastFetchedChecksum := None\<rparr>)"
  by (simp add: update_payload_def empty_string_is_undefined)

lemma update_by_payload:
  assumes "update_payload a = update_payload b" and "upd_id a = upd_id b"
  shows "updateSubscriptionResolver store uid a = updateSubscriptionResolver store uid b"
  using assms by (simp add: updateSubscriptionResolver_def Let_def split: option.splits)

lemma written_fields:
  "name (write_defined (update_payload input) r) =
     (case upd_name input of None \<Rightarrow> name r | Some n \<Rightarrow> if n = '''' then name r else n)"
  "description (write_defined (update_payload input) r) =
     (case upd_description input of None \<Rightarrow> description r
      | Some d \<Rightarrow> if d = '''' then description r else Some d)"
  "lastFetchedChecksum (write_defined (update_payload input) r) =
     (case upd_lastFetchedChecksum input of None \<Rightarrow> lastFetchedChecksum r
      | Some c \<Rightarrow> if c = '''' then lastFetchedChecksum r else Some c)"
  "status (write_defined (update_payload input) r) =
     (case upd_status input of None \<Rightarrow> status r | Some s \<Rightarrow> s)"
  "lastFetchedAt (write_defined (update_payload input) r) =
     (case upd_lastFetchedAt input of None \<Rightarrow> lastFetchedAt r | Some d \<Rightarrow> Some d)"
  "scheduledAt (write_defined (update_payload input) r) =
     (case upd_scheduledAt input of None \<Rightarrow> scheduledAt r | Some d \<Rightarrow> Some d)"
  "autoAddToLibrary (write_defined (update_payload input) r) =
     (case upd_autoAddToLibrary input of None \<Rightarrow> autoAddToLibrary r | Some b \<Rightarrow> Some b)"
  "isPrivate (write_defined (update_payload input) r) =
     (case upd_isPrivate input of None \<Rightarrow> isPrivate r | Some b \<Rightarrow> Some b)"
  by (simp_all add: write_defined_def update_payload_def or_undefined_def date_or_undefined_def
      status_or_undefined_def nullish_undefined_def split: option.splits)

text \<open>
  Claim C10.  An update whose \<open>name\<close>, \<open>description\<close> or \<open>lastFetchedChecksum\<close> is the
  empty string gives the same result and the same table as the update that leaves the
  field out.  When the row with the given id exists and belongs to the caller, the call
  returns the row as rewritten: a string field keeps its stored value when the input is
  absent or empty and takes the input otherwise; the status keeps its stored value when
  the input is absent; \<open>autoAddToLibrary\<close> and \<open>isPrivate\<close> take any supplied boolean, so
  \<open>false\<close> is stored as \<open>false\<close>; the fields that the input cannot name (id, owner, type,
  url, icon, creation time) keep their values, and so do the rows with another id.
\<close>

theorem C10_update_fields:
  "updateSubscriptionResolver store uid (input\<lparr>upd_name := Some ''''\<rparr>)
     = updateSubscriptionResolver store uid (input\<lparr>upd_name := None\<rparr>)
   \<and> updateSubscriptionResolver store uid (input\<lparr>upd_description := Some ''''\<rparr>)
     = updateSubscriptionResolver store uid (input\<lparr>upd_description := None\<rparr>)
   \<and> updateSubscriptionResolver store uid (input\<lparr>upd_lastFetchedChecksum := Some ''''\<rparr>)
     = updateSubscriptionResolver store uid (input\<lparr>upd_lastFetchedChecksum := None\<rparr>)
   \<and> (find (\<lambda>x. sub_id x = upd_id input) store = Some r \<and> user_id r = uid \<longrightarrow>
       (\<exists>r' store'. updateSubscriptionResolver store uid input = (Inr r', store')
          \<and> name r' =
              (case upd_name input of None \<Rightarrow> name r | Some n \<Rightarrow> if n = '''' then name r else n)
          \<and> description r' =
              (case upd_description input of None \<Rightarrow> description r
               | Some d \<Rightarrow> if d = '''' then description r else Some d)
          \<and> lastFetchedChecksum r' =
              (case upd_lastFetchedChecksum input of None \<Rightarrow> lastFetchedChecksum r
               | Some c \<Rightarrow> if c = '''' then lastFetchedChecksum r else Some c)
          \<and> status r' = (case upd_status input of None \<Rightarrow> status r | Some s \<Rightarrow> s)
          \<and> lastFetchedAt r' =
              (case upd_lastFetchedAt input of None \<Rightarrow> lastFetchedAt r | Some d \<Rightarrow> Some d)
          \<and> scheduledAt r' =
              (case upd_scheduledAt input of None \<Rightarrow> scheduledAt r | Some d \<Rightarrow> Some d)
          \<and> autoAddToLibrary r' =
              (case upd_autoAddToLibrary input of None \<Rightarrow> autoAddToLibrary r | Some b \<Rightarrow> Some b)
          \<and> isPrivate r' =
              (case upd_isPrivate input of None \<Rightarrow> isPrivate r | Some b \<Rightarrow> Some b)
          \<and> (upd_autoAddToLibrary input = Some False \<longrightarrow> autoAddToLibrary r' = Some False)
          \<and> (upd_isPrivate input = Some False \<longrightarrow> isPrivate r' = Some False)
          \<and> sub_id r' = sub_id r \<and> user_id r' = user_id r \<and> sub_type r' = sub_type r
          \<and> url r' = url r \<and> icon r' = icon r \<and> createdAt r' = createdAt r
          \<and> length store' = length store
          \<and> (\<forall>i. i < length store \<longrightarrow>
                store' ! i = (if sub_id (store ! i) = upd_id input
                              then write_defined (update_payload input) (store ! i)
                              else store ! i))))"
proof (intro conjI impI)
  show "updateSubscriptionResolver store uid (input\<lparr>upd_name := Some ''''\<rparr>)
     = updateSubscriptionResolver store uid (input\<lparr>upd_name := None\<rparr>)"
    by (rule update_by_payload) (simp_all add: payload_empty_name)
next
  show "updateSubscriptionResolver store uid (input\<lparr>upd_description := Some ''''\<rparr>)
     = updateSubscriptionResolver store uid (input\<lparr>upd_description := None\<rparr>)"
    by (rule update_by_payload) (simp_all add: payload_empty_description)
next
  show "updateSubscriptionResolver store uid (input\<lparr>upd_lastFetchedChecksum := Some ''''\<rparr>)
     = updateSubscriptionResolver store uid (input\<lparr>upd_lastFetchedChecksum := None\<rparr>)"
    by (rule update_by_payload) (simp_all add: payload_empty_checksum)
next
  assume a: "find (\<lambda>x. sub_id x = upd_id input) store = Some r \<and> user_id r = uid"
  let ?r = "write_defined (update_payload input) r"
  let ?s = "save_partial store (update_payload input)"
  from a have u: "updateSubscriptionResolver store uid input = (Inr ?r, ?s)"
    by (simp add: update_found)
  have i: "p_id (update_payload input) = upd_id input"
    by (simp add: update_payload_def)
  have n: "\<forall>i. i < length store \<longrightarrow>
                ?s ! i = (if sub_id (store ! i) = upd_id input
                          then write_defined (update_payload input) (store ! i)
                          else store ! i)"
    by (simp add: save_partial_nth i)
  have b: "(upd_autoAddToLibrary input = Some False \<longrightarrow> autoAddToLibrary ?r = Some False)
      \<and> (upd_isPrivate input = Some False \<longrightarrow> isPrivate ?r = Some False)"
    by (simp add: written_fields)
  show "\<exists>r' store'. updateSubscriptionResolver store uid input = (Inr r', store')
          \<and> name r' =
              (case upd_name input of None \<Rightarrow> name r | Some n \<Rightarrow> if n = '''' then name r else n)
          \<and> description r' =
              (case upd_description input of None \<Rightarrow> description r
               | Some d \<Rightarrow> if d = '''' then description r else Some d)
          \<and> lastFetchedChecksum r' =
              (case upd_lastFetchedChecksum input of None \<Rightarrow> lastFetchedChecksum r
               | Some c \<Rightarrow> if c = '''' then lastFetchedChecksum r else Some c)
          \<and> status r' = (case upd_status input of None \<Rightarrow> status r | Some s \<Rightarrow> s)
          \<and> lastFetchedAt r' =
              (case upd_lastFetchedAt input of None \<Rightarrow> lastFetchedAt r | Some d \<Rightarrow> Some d)
          \<and> scheduledAt r' =
              (case upd_scheduledAt input of None \<Rightarrow> scheduledAt r | Some d \<Rightarrow> Some d)
          \<and> autoAddToLibrary r' =
              (case upd_autoAddToLibrary input of None \<Rightarrow> autoAddToLibrary r | Some b \<Rightarrow> Some b)
          \<and> isPrivate r' =
              (case upd_isPrivate input of None \<Rightarrow> isPrivate r | Some b \<Rightarrow> Some b)
          \<and> (upd_autoAddToLibrary input = Some False \<longrightarrow> autoAddToLibrary r' = Some False)
          \<and> (upd_isPrivate input = Some False \<longrightarrow> isPrivate r' = Some False)
          \<and> sub_id r' = sub_id r \<and> user_id r' = user_id r \<and> sub_type r' = sub_type r
          \<and> url r' = url r \<and> icon r' = icon r \<and> createdAt r' = createdAt r
          \<and> length store' = length store
          \<and> (\<forall>i. i < length store \<longrightarrow>
                store' ! i = (if sub_id (store ! i) = upd_id input
                              then write_defined (update_payload input) (store ! i)
                              else store ! i))"
    apply (intro exI [of _ ?r] exI [of _ ?s] conjI)
                      apply (rule u)
                      apply (rule written_fields)+
                      apply (rule b [THEN conjunct1])
                      apply (rule b [THEN conjunct2])
                      apply (rule write_defined_keeps)+
                      apply (rule save_partial_length)
                      apply (rule n)
    done
qed

theorem C10_update_fields_witness:
  "\<exists>r'. fst (updateSubscriptionResolver example_store ''u1''
               (example_update\<lparr>upd_name := Some '''', upd_description := Some ''d'',
                                upd_autoAddToLibrary := Some False\<rparr>)) = Inr r'
     \<and> name r' = ''s6'' \<and> description r' = Some ''d''
     \<and> autoAddToLibrary r' = Some False \<and> isPrivate r' = None \<and> status r' = Active"
proof -
  let ?input = "example_update\<lparr>upd_name := Some '''', upd_description := Some ''d'',
                                upd_autoAddToLibrary := Some False\<rparr>"
  let ?r = "example_row ''s6'' ''u1'' Rss ''e'' Active 60 (Some 400)"
  have h: "find (\<lambda>x. sub_id x = upd_id ?input) example_store = Some ?r \<and> user_id ?r = ''u1''"
    by (simp add: example_store_def example_row_def example_update_def)
  from C10_update_fields [of example_store "''u1''" ?input ?r] h
  obtain r' store' where
    "updateSubscriptionResolver example_store ''u1'' ?input = (Inr r', store')"
    "name r' = (case upd_name ?input of None \<Rightarrow> name ?r
                | Some n \<Rightarrow> if n = '''' then name ?r else n)"
    "description r' = (case upd_description ?input of None \<Rightarrow> description ?r
               | Some d \<Rightarrow> if d = '''' then description ?r else Some d)"
    "status r' = (case upd_status ?input of None \<Rightarrow> status ?r | Some s \<Rightarrow> s)"
    "isPrivate r' = (case upd_isPrivate ?input of None \<Rightarrow> isPrivate ?r | Some b \<Rightarrow> Some b)"
    "upd_autoAddToLibrary ?input = Some False \<longrightarrow> autoAddToLibrary r' = Some False"
    by blast
  then show ?thesis
    by (intro exI [of _ r']) (simp add: example_update_def example_row_def)
qed

end
